theory Spec2Isabelle
  imports Complex_Main
begin

section \<open>Numbers, strings and optional values of the TypeScript sources\<close>

text \<open>
  Prices, quantities and amounts are TypeScript \<open>number\<close>s, that is IEEE doubles, and
  prices may carry cents.  The handlers are modelled on integer amounts (\<open>number\<close>):
  this is what the properties about which lines, which price and which branch a handler
  takes depend on, and they hold alike for doubles.  The one property that depends on how
  the arithmetic rounds, the total stored with an order, is stated on doubles proper
  (section "The amounts of an order in the arithmetic of the source").
  An optional or nullable field is an \<open>option\<close>; \<open>a ?? b\<close> keeps \<open>a\<close> unless it is
  null or undefined, \<open>a || b\<close> on strings keeps \<open>a\<close> unless it is empty.
  Strings are byte strings; \<open>toLowerCase\<close> maps the ASCII capitals and
  \<open>String.prototype.includes\<close> is the contiguous-substring test.
\<close>

type_synonym number = int

definition nullish :: "'a option \<Rightarrow> 'a \<Rightarrow> 'a" where
  "nullish a b = (case a of Some x \<Rightarrow> x | None \<Rightarrow> b)"

definition or_else :: "string \<Rightarrow> string \<Rightarrow> string" where
  "or_else a b = (if a = [] then b else a)"

definition lower_char :: "char \<Rightarrow> char" where
  "lower_char c =
     (case map_of (zip ''ABCDEFGHIJKLMNOPQRSTUVWXYZ'' ''abcdefghijklmnopqrstuvwxyz'') c of
        Some l \<Rightarrow> l
      | None \<Rightarrow> c)"

definition toLowerCase :: "string \<Rightarrow> string" where
  "toLowerCase s = map lower_char s"

fun starts_with :: "string \<Rightarrow> string \<Rightarrow> bool" where
  "starts_with hay [] = True"
| "starts_with [] (c # cs) = False"
| "starts_with (h # hs) (c # cs) = (h = c \<and> starts_with hs cs)"

fun str_includes :: "string \<Rightarrow> string \<Rightarrow> bool" where
  "str_includes [] needle = (needle = [])"
| "str_includes (h # hs) needle = (starts_with (h # hs) needle \<or> str_includes hs needle)"

section \<open>Cart page (src/app/cart/page.tsx)\<close>

record ProductJoin =
  product_name :: "string option"
  discount_price :: "number option"
  original_price :: "number option"

record CartItem =
  item_id :: string
  product_id :: string
  quantity :: number
  price_at_add :: number
  products :: "ProductJoin option"

record CheckoutItem =
  productId :: string
  productName :: string
  co_quantity :: number
  co_price_at_add :: number

definition matches_search :: "string \<Rightarrow> CartItem \<Rightarrow> bool" where
  "matches_search searchTerm item =
     (case products item of
        None \<Rightarrow> False
      | Some p \<Rightarrow>
          (case product_name p of
             None \<Rightarrow> False
           | Some n \<Rightarrow> str_includes (toLowerCase n) (toLowerCase searchTerm)))"

definition filteredCartItems :: "string \<Rightarrow> CartItem list \<Rightarrow> CartItem list" where
  "filteredCartItems searchTerm cartItems = filter (matches_search searchTerm) cartItems"

definition unitPrice :: "CartItem \<Rightarrow> number" where
  "unitPrice item =
     (case products item of
        None \<Rightarrow> price_at_add item
      | Some p \<Rightarrow> nullish (discount_price p) (nullish (original_price p) (price_at_add item)))"

definition subtotal :: "CartItem list \<Rightarrow> number" where
  "subtotal filtered = foldl (\<lambda>sum item. sum + unitPrice item * quantity item) 0 filtered"

definition shippingFee :: "number \<Rightarrow> number" where
  "shippingFee sub = (if sub > 0 \<and> sub < 1000 then 99 else 0)"

definition cart_total :: "CartItem list \<Rightarrow> number" where
  "cart_total filtered = subtotal filtered + shippingFee (subtotal filtered)"

definition checkoutItems :: "CartItem list \<Rightarrow> CheckoutItem list" where
  "checkoutItems filtered =
     map (\<lambda>item.
        \<lparr> productId = product_id item,
          productName =
            or_else (case products item of None \<Rightarrow> [] | Some p \<Rightarrow> nullish (product_name p) [])
              ''Unknown Product'',
          co_quantity = quantity item,
          co_price_at_add = unitPrice item \<rparr>) filtered"

section \<open>Checkout modal totals (CheckoutDetailsModal)\<close>

definition modal_subtotal :: "CheckoutItem list \<Rightarrow> number" where
  "modal_subtotal items = foldl (\<lambda>sum item. sum + co_price_at_add item * co_quantity item) 0 items"

definition totalQuantity :: "CheckoutItem list \<Rightarrow> number" where
  "totalQuantity items = foldl (\<lambda>sum item. sum + co_quantity item) 0 items"

definition totalAmount :: "CheckoutItem list \<Rightarrow> number" where
  "totalAmount items = modal_subtotal items + shippingFee (modal_subtotal items)"

section \<open>Product details (ProductDetails component)\<close>

record Product =
  p_id :: string
  p_productName :: string
  originalPrice :: number
  discountPrice :: "number option"

definition displayPrice :: "Product \<Rightarrow> number" where
  "displayPrice product = nullish (discountPrice product) (originalPrice product)"

text \<open>
  The pricing contract in the words of the specification, for comparison with
  \<open>displayPrice\<close>: the discount price if present and lower than the original price,
  else the original price.
\<close>

definition spec_effectiveUnitPrice :: "Product \<Rightarrow> number" where
  "spec_effectiveUnitPrice product =
     (case discountPrice product of
        Some d \<Rightarrow> (if d < originalPrice product then d else originalPrice product)
      | None \<Rightarrow> originalPrice product)"

text \<open>
  The cart subtotal in the words of the specification, for comparison with \<open>subtotal\<close>:
  every line priced at the price captured when it was added.
\<close>

definition spec_subtotal_at_add :: "CartItem list \<Rightarrow> number" where
  "spec_subtotal_at_add filtered = sum_list (map (\<lambda>item. price_at_add item * quantity item) filtered)"

section \<open>Notices and the hosted backend\<close>

text \<open>
  A toast is what a handler shows to the user.  The hosted store is a set of tables, each
  a list of rows in insertion order.  A call to the store either succeeds or returns an
  error; every handler below takes the error message of each of its calls as an optional
  argument (\<open>None\<close>: the call succeeds).  \<open>.single()\<close> yields the row when
  exactly one row matches and the error code PGRST116 otherwise.  The session user id and
  the identifiers produced by \<open>uuidv4\<close> or by the store are arguments as well.
  Time stamps, geolocation and media fields, on which no property below depends, are
  left out of the records; an absent string (a missing gateway field, an error without
  a message) is the empty string.
\<close>

record Toast =
  title :: string
  description :: string
  variant :: string

record cart_row =
  cr_id :: string
  cr_user_id :: string
  cr_product_id :: string
  cr_quantity :: number
  cr_price_at_add :: number

record product_row =
  pr_id :: string
  pr_columns :: ProductJoin

record Address =
  addr_id :: string
  addr_name :: string
  houseNumber :: string
  street :: string
  area :: string
  city :: string
  state :: string
  pincode :: string
  country :: string
  primaryPhone :: string
  secondaryPhone :: "string option"
  isDefault :: bool

record UserProfile =
  up_id :: string
  up_name :: string
  up_phone :: string
  addresses :: "Address list option"

record OrderItemJson =
  oi_id :: string
  oi_product_id :: string
  oi_quantity :: number
  price_at_purchase :: number

record Order =
  order_row_id :: string
  user_id :: string
  total_amount :: number
  payment_id :: "string option"
  order_id :: string
  signature :: "string option"
  status :: string
  customer_name :: string
  primary_phone :: string
  secondary_phone :: "string option"
  o_country :: string
  o_state :: string
  o_city :: string
  o_pincode :: string
  o_area :: string
  o_street :: string
  house_number :: string
  order_items :: "OrderItemJson list"

record db =
  cart_items :: "cart_row list"
  orders :: "Order list"
  user_profiles :: "UserProfile list"
  products_table :: "product_row list"

definition single :: "'a list \<Rightarrow> 'a option" where
  "single rows = (case rows of [r] \<Rightarrow> Some r | _ \<Rightarrow> None)"

definition or_null :: "string \<Rightarrow> string option" where
  "or_null s = (if s = [] then None else Some s)"

definition destructive :: "string \<Rightarrow> string \<Rightarrow> Toast" where
  "destructive t d = \<lparr> title = t, description = d, variant = ''destructive'' \<rparr>"

definition notice :: "string \<Rightarrow> string \<Rightarrow> Toast" where
  "notice t d = \<lparr> title = t, description = d, variant = ''default'' \<rparr>"

section \<open>Cart page handlers\<close>

record cart_page =
  cartItems :: "CartItem list"
  searchTerm :: string
  showCheckoutModal :: bool
  cp_error :: "string option"
  cp_toasts :: "Toast list"
  cp_route :: string

definition join_product :: "product_row list \<Rightarrow> string \<Rightarrow> ProductJoin option" where
  "join_product tbl pid = map_option pr_columns (find (\<lambda>p. pr_id p = pid) tbl)"

definition fetchCartItems :: "string option \<Rightarrow> string option \<Rightarrow> db \<Rightarrow> cart_page \<Rightarrow> cart_page" where
  "fetchCartItems session cartError d s =
     (case session of
        None \<Rightarrow>
          s\<lparr> cp_error := None,
             cp_toasts := cp_toasts s @ [destructive ''Please log in to view your cart.'' []],
             cp_route := ''/login'' \<rparr>
      | Some userId \<Rightarrow>
          (case cartError of
             Some _ \<Rightarrow>
               s\<lparr> cp_error := Some ''Failed to load cart items. Please try again.'', cartItems := [] \<rparr>
           | None \<Rightarrow>
               s\<lparr> cp_error := None,
                  cartItems :=
                    map (\<lambda>item.
                        \<lparr> item_id = cr_id item,
                          product_id = cr_product_id item,
                          quantity = cr_quantity item,
                          price_at_add = cr_price_at_add item,
                          products = join_product (products_table d) (cr_product_id item) \<rparr>)
                      (rev (filter (\<lambda>r. cr_user_id r = userId) (cart_items d))) \<rparr>))"

definition handleQuantityChange ::
  "string option \<Rightarrow> string option \<Rightarrow> string \<Rightarrow> number \<Rightarrow> db \<times> cart_page \<Rightarrow> db \<times> cart_page" where
  "handleQuantityChange session updateError itemId newQuantity w =
     (case w of (d, s) \<Rightarrow>
        if newQuantity < 1 then (d, s)
        else
          (case session of
             None \<Rightarrow>
               (d, s\<lparr> cp_toasts := cp_toasts s @ [destructive ''Please log in to update cart quantity.'' []] \<rparr>)
           | Some userId \<Rightarrow>
               (case updateError of
                  Some message \<Rightarrow>
                    (d, s\<lparr> cp_toasts := cp_toasts s @
                              [destructive (or_else message ''Failed to update product quantity.'') []] \<rparr>)
                | None \<Rightarrow>
                    (d\<lparr> cart_items :=
                          map (\<lambda>r. if cr_id r = itemId \<and> cr_user_id r = userId
                                    then r\<lparr> cr_quantity := newQuantity \<rparr> else r) (cart_items d) \<rparr>,
                     s\<lparr> cartItems :=
                          map (\<lambda>item. if item_id item = itemId
                                       then item\<lparr> quantity := newQuantity \<rparr> else item) (cartItems s) \<rparr>))))"

definition handleRemoveItem ::
  "string option \<Rightarrow> string option \<Rightarrow> string \<Rightarrow> string \<Rightarrow> db \<times> cart_page \<Rightarrow> db \<times> cart_page" where
  "handleRemoveItem session deleteError itemId productName' w =
     (case w of (d, s) \<Rightarrow>
        (case session of
           None \<Rightarrow>
             (d, s\<lparr> cp_toasts := cp_toasts s @ [destructive ''Please log in to remove items from cart.'' []] \<rparr>)
         | Some userId \<Rightarrow>
             (case deleteError of
                Some message \<Rightarrow>
                  (d, s\<lparr> cp_toasts := cp_toasts s @
                            [destructive (or_else message ''Failed to remove product from cart.'') []] \<rparr>)
              | None \<Rightarrow>
                  (d\<lparr> cart_items :=
                        filter (\<lambda>r. \<not> (cr_id r = itemId \<and> cr_user_id r = userId)) (cart_items d) \<rparr>,
                   s\<lparr> cartItems := filter (\<lambda>item. item_id item \<noteq> itemId) (cartItems s),
                      cp_toasts := cp_toasts s @
                        [notice (productName' @ '' has been removed from your cart.'') []] \<rparr>))))"

definition handleProceedToCheckout :: "cart_page \<Rightarrow> cart_page" where
  "handleProceedToCheckout s =
     (if length (filteredCartItems (searchTerm s) (cartItems s)) = 0 then
        s\<lparr> cp_toasts := cp_toasts s @
             [destructive ''Please add items to your cart before proceeding to checkout.'' []] \<rparr>
      else s\<lparr> showCheckoutModal := True \<rparr>)"

definition handleOrderSuccess ::
  "string option \<Rightarrow> string option \<Rightarrow> db \<times> cart_page \<Rightarrow> db \<times> cart_page" where
  "handleOrderSuccess session deleteError w =
     (case w of (d, s) \<Rightarrow>
        (case session of
           None \<Rightarrow> (d, s\<lparr> cp_route := ''/orders'' \<rparr>)
         | Some userId \<Rightarrow>
             (case deleteError of
                Some _ \<Rightarrow> (d, s\<lparr> cp_route := ''/orders'' \<rparr>)
              | None \<Rightarrow>
                  (d\<lparr> cart_items := filter (\<lambda>r. cr_user_id r \<noteq> userId) (cart_items d) \<rparr>,
                   s\<lparr> cartItems := [], cp_route := ''/orders'' \<rparr>))))"

section \<open>Checkout modal (CheckoutDetailsModal) and the payment collaborator\<close>

record razorpay_response =
  razorpay_payment_id :: string
  razorpay_order_id :: string
  razorpay_signature :: string

record payment_error =
  err_description :: string

datatype payment_outcome =
    PaymentSucceeded razorpay_response
  | PaymentFailed payment_error
  | SdkLoadFailed

record modal =
  m_items :: "CheckoutItem list"
  userName :: string
  m_primaryPhone :: string
  m_secondaryPhone :: string
  m_country :: string
  m_state :: string
  m_city :: string
  m_pincode :: string
  m_area :: string
  m_street :: string
  m_houseNumber :: string
  userAddresses :: "Address list"
  selectedAddressId :: "string option"
  showNewAddressForm :: bool
  orderId :: string
  showRazorpay :: bool
  m_error :: "string option"
  m_toasts :: "Toast list"

definition handleFormSubmit :: "string \<Rightarrow> modal \<Rightarrow> modal" where
  "handleFormSubmit tempOrderId m =
     (if selectedAddressId m = Some ''new'' \<and>
         (userName m = [] \<or> m_primaryPhone m = [] \<or> m_state m = [] \<or> m_city m = [] \<or>
          m_pincode m = [] \<or> m_houseNumber m = [] \<or> m_street m = [] \<or> m_area m = [])
      then
        m\<lparr> m_error := Some ''Please fill in all required shipping details for the new address.'',
           m_toasts := m_toasts m @
             [destructive ''Missing Details'' ''Please fill in all required shipping details.''] \<rparr>
      else if selectedAddressId m = None \<or> selectedAddressId m = Some [] then
        m\<lparr> m_error := Some ''Please select or add a delivery address.'',
           m_toasts := m_toasts m @
             [destructive ''Missing Address'' ''Please select or add a delivery address.''] \<rparr>
      else m\<lparr> m_error := None, orderId := tempOrderId, showRazorpay := True \<rparr>)"

definition order_error :: "string \<Rightarrow> modal \<Rightarrow> modal" where
  "order_error message m =
     m\<lparr> m_toasts := m_toasts m @
          [destructive ''Order Error''
             (or_else message
                ''Payment was successful, but there was an error creating your order. Please contact support.'')],
        showRazorpay := False \<rparr>"

definition orderItemsData :: "(nat \<Rightarrow> string) \<Rightarrow> nat \<Rightarrow> CheckoutItem list \<Rightarrow> OrderItemJson list" where
  "orderItemsData uuidv4 k its =
     map (\<lambda>(i, item).
         \<lparr> oi_id = uuidv4 i,
           oi_product_id = productId item,
           oi_quantity = co_quantity item,
           price_at_purchase = co_price_at_add item \<rparr>) (enumerate k its)"

text \<open>
  The local values of \<open>handlePaymentSuccess\<close>: the address built from the form when
  "new" is selected, the shipping address, the address list saved to the profile and the
  order record.  \<open>uuidv4 i\<close> is the identifier returned by the \<open>i\<close>-th call of \<open>uuidv4\<close>.
\<close>

definition newAddress :: "(nat \<Rightarrow> string) \<Rightarrow> modal \<Rightarrow> Address" where
  "newAddress uuidv4 m =
     \<lparr> addr_id = uuidv4 0,
       addr_name = m_houseNumber m @ '', '' @ m_street m,
       houseNumber = m_houseNumber m,
       street = m_street m,
       area = m_area m,
       city = m_city m,
       state = m_state m,
       pincode = m_pincode m,
       country = m_country m,
       primaryPhone = m_primaryPhone m,
       secondaryPhone = or_null (m_secondaryPhone m),
       isDefault = True \<rparr>"

definition currentShippingAddress :: "(nat \<Rightarrow> string) \<Rightarrow> modal \<Rightarrow> Address option" where
  "currentShippingAddress uuidv4 m =
     (if selectedAddressId m = Some ''new'' then Some (newAddress uuidv4 m)
      else find (\<lambda>addr. Some (addr_id addr) = selectedAddressId m) (userAddresses m))"

definition updatedAddressesForProfile :: "(nat \<Rightarrow> string) \<Rightarrow> modal \<Rightarrow> Address list" where
  "updatedAddressesForProfile uuidv4 m =
     (if selectedAddressId m = Some ''new'' then
        map (\<lambda>addr. addr\<lparr> isDefault := False \<rparr>) (userAddresses m) @ [newAddress uuidv4 m]
      else if currentShippingAddress uuidv4 m \<noteq> None then
        map (\<lambda>addr. addr\<lparr> isDefault := (Some (addr_id addr) = selectedAddressId m) \<rparr>) (userAddresses m)
      else userAddresses m)"

definition orderData ::
  "string \<Rightarrow> (nat \<Rightarrow> string) \<Rightarrow> string \<Rightarrow> razorpay_response \<Rightarrow> Address \<Rightarrow> modal \<Rightarrow> Order" where
  "orderData currentUserId uuidv4 newOrderRowId response shipTo m =
     \<lparr> order_row_id = newOrderRowId,
       user_id = currentUserId,
       total_amount = totalAmount (m_items m),
       payment_id = or_null (razorpay_payment_id response),
       order_id = or_else (razorpay_order_id response) (orderId m),
       signature = or_null (razorpay_signature response),
       status = ''confirmed'',
       customer_name = userName m,
       primary_phone = m_primaryPhone m,
       secondary_phone = or_null (m_secondaryPhone m),
       o_country = country shipTo,
       o_state = state shipTo,
       o_city = city shipTo,
       o_pincode = pincode shipTo,
       o_area = area shipTo,
       o_street = street shipTo,
       house_number = houseNumber shipTo,
       order_items =
         orderItemsData uuidv4 (if selectedAddressId m = Some ''new'' then 1 else 0) (m_items m) \<rparr>"

definition save_profile :: "string option \<Rightarrow> string \<Rightarrow> (nat \<Rightarrow> string) \<Rightarrow> modal \<Rightarrow> db \<Rightarrow> db" where
  "save_profile profileUpdateError currentUserId uuidv4 m d =
     (case profileUpdateError of
        Some _ \<Rightarrow> d
      | None \<Rightarrow>
          d\<lparr> user_profiles :=
               map (\<lambda>p. if up_id p = currentUserId
                         then p\<lparr> up_name := userName m,
                                 up_phone := m_primaryPhone m,
                                 addresses := Some (updatedAddressesForProfile uuidv4 m) \<rparr>
                         else p) (user_profiles d) \<rparr>)"

definition payment_success_notice :: "modal \<Rightarrow> modal" where
  "payment_success_notice m =
     m\<lparr> m_toasts := m_toasts m @ [notice ''Payment successful!'' ''Your order has been placed.''],
        showRazorpay := False \<rparr>"

definition handlePaymentSuccess ::
  "string option \<Rightarrow> (nat \<Rightarrow> string) \<Rightarrow> string \<Rightarrow> string option \<Rightarrow> string option \<Rightarrow>
   razorpay_response \<Rightarrow> ('page \<Rightarrow> 'page) \<Rightarrow> (db \<times> 'page \<Rightarrow> db \<times> 'page) \<Rightarrow>
   db \<times> 'page \<times> modal \<Rightarrow> db \<times> 'page \<times> modal" where
  "handlePaymentSuccess session uuidv4 newOrderRowId profileUpdateError orderError response
       onClose onOrderSuccess w =
     (case w of (d, page, m) \<Rightarrow>
        (case session of
           None \<Rightarrow>
             (d, page,
              m\<lparr> m_toasts := m_toasts m @
                   [destructive ''Authentication Error''
                      ''User not logged in. Please log in and try again.''] \<rparr>)
         | Some currentUserId \<Rightarrow>
             (case currentShippingAddress uuidv4 m of
                None \<Rightarrow> (d, page, order_error ''No shipping address found or selected.'' m)
              | Some shipTo \<Rightarrow>
                  (let d1 = save_profile profileUpdateError currentUserId uuidv4 m d
                   in
                     (case orderError of
                        Some message \<Rightarrow> (d1, page, order_error message m)
                      | None \<Rightarrow>
                          (case onOrderSuccess
                                  (d1\<lparr> orders := orders d1 @
                                        [orderData currentUserId uuidv4 newOrderRowId response shipTo m] \<rparr>,
                                   onClose page) of
                             (d2, page2) \<Rightarrow> (d2, page2, payment_success_notice m)))))))"

definition handlePaymentFailure :: "payment_error \<Rightarrow> modal \<Rightarrow> modal" where
  "handlePaymentFailure err m =
     m\<lparr> m_toasts := m_toasts m @
          [destructive ''Payment Failed''
             (''Payment failed: '' @ or_else (err_description err) ''Unknown error'')],
        showRazorpay := False \<rparr>"

text \<open>
  The payment component calls \<open>onSuccess\<close> from the gateway's handler and \<open>onFailure\<close>
  from its \<open>payment.failed\<close> event or when the gateway script fails to load.
\<close>

definition RazorpayPayment ::
  "payment_outcome \<Rightarrow> (razorpay_response \<Rightarrow> 'w \<Rightarrow> 'w) \<Rightarrow> (payment_error \<Rightarrow> 'w \<Rightarrow> 'w) \<Rightarrow> 'w \<Rightarrow> 'w" where
  "RazorpayPayment outcome onSuccess onFailure w =
     (case outcome of
        PaymentSucceeded response \<Rightarrow> onSuccess response w
      | PaymentFailed err \<Rightarrow> onFailure err w
      | SdkLoadFailed \<Rightarrow> onFailure \<lparr> err_description = ''Failed to load Razorpay SDK'' \<rparr> w)"

text \<open>The modal as the cart page mounts it: \<open>onOrderSuccess\<close> is the page's \<open>handleOrderSuccess\<close>.\<close>

definition cart_checkout_payment ::
  "string option \<Rightarrow> (nat \<Rightarrow> string) \<Rightarrow> string \<Rightarrow> string option \<Rightarrow> string option \<Rightarrow> string option \<Rightarrow>
   payment_outcome \<Rightarrow> db \<times> cart_page \<times> modal \<Rightarrow> db \<times> cart_page \<times> modal" where
  "cart_checkout_payment session uuidv4 newOrderRowId profileUpdateError orderError deleteError outcome w =
     RazorpayPayment outcome
       (\<lambda>response.
          handlePaymentSuccess session uuidv4 newOrderRowId profileUpdateError orderError response
            (\<lambda>page. page\<lparr> showCheckoutModal := False \<rparr>)
            (handleOrderSuccess session deleteError))
       (\<lambda>err (d, page, m). (d, page, handlePaymentFailure err m))
       w"

definition open_cart_checkout :: "cart_page \<Rightarrow> modal \<Rightarrow> modal" where
  "open_cart_checkout s m =
     m\<lparr> m_items := checkoutItems (filteredCartItems (searchTerm s) (cartItems s)) \<rparr>"

section \<open>The amounts of an order in the arithmetic of the source\<close>

text \<open>
  A finite double is modelled by the rational number it denotes.  The result of an
  arithmetic operation is the exact result rounded to the nearest double, ties to the
  even significand: 53 significant bits, and a spacing that stays at \<open>2^-1074\<close> for the
  smallest magnitudes.  \<open>normalise\<close> scales a positive value into \<open>[2^52, 2^53)\<close> and
  returns the spacing of the doubles around it; 2200 steps cover every magnitude between
  \<open>2^-1074\<close> and \<open>2^1024\<close>.  Overflow to Infinity and NaN are not modelled: the amounts
  of a cart are far below \<open>2^1024\<close>.  \<open>parseFloat n k\<close> is the double that
  \<open>Number.parseFloat\<close> reads from the decimal text of \<open>n / 10^k\<close>, as the product form
  does with a price.
\<close>

type_synonym double = rat

definition round_half_even :: "rat \<Rightarrow> int" where
  "round_half_even y =
     (let f = \<lfloor>y\<rfloor>; r = y - of_int f
      in if r < 1 / 2 then f else if 1 / 2 < r then f + 1 else if even f then f else f + 1)"

fun normalise :: "nat \<Rightarrow> rat \<Rightarrow> rat \<Rightarrow> rat \<times> rat" where
  "normalise 0 y ulp = (y, ulp)"
| "normalise (Suc fuel) y ulp =
     (if 2 ^ 53 \<le> y then normalise fuel (y / 2) (ulp * 2)
      else if y < 2 ^ 52 \<and> 1 / 2 ^ 1074 < ulp then normalise fuel (y * 2) (ulp / 2)
      else (y, ulp))"

definition fl :: "rat \<Rightarrow> double" where
  "fl x =
     (if x = 0 then 0
      else (case normalise 2200 \<bar>x\<bar> 1 of
              (y, ulp) \<Rightarrow> sgn x * of_int (round_half_even y) * ulp))"

definition dadd :: "double \<Rightarrow> double \<Rightarrow> double" where
  "dadd a b = fl (a + b)"


definition dmul :: "double \<Rightarrow> double \<Rightarrow> double" where
  "dmul a b = fl (a * b)"

definition parseFloat :: "int \<Rightarrow> nat \<Rightarrow> double" where
  "parseFloat n k = fl (of_int n / 10 ^ k)"

text \<open>
  The amounts of the checkout modal and of the order record it persists
  (\<open>subtotal\<close>, \<open>shippingFee\<close>, \<open>totalAmount\<close>, \<open>orderItemsData\<close> and the fields
  \<open>total_amount\<close> and \<open>order_items\<close> of \<open>orderData\<close>), with every \<open>+\<close> and \<open>*\<close> of the
  source rounding as it does there.
\<close>

record CheckoutItem64 =
  productId64 :: string
  quantity64 :: double
  price_at_add64 :: double

definition subtotal64 :: "CheckoutItem64 list \<Rightarrow> double" where
  "subtotal64 its =
     foldl (\<lambda>sum item. dadd sum (dmul (price_at_add64 item) (quantity64 item))) 0 its"

definition shippingFee64 :: "double \<Rightarrow> double" where
  "shippingFee64 sub = (if sub > 0 \<and> sub < 1000 then 99 else 0)"

definition totalAmount64 :: "CheckoutItem64 list \<Rightarrow> double" where
  "totalAmount64 its = dadd (subtotal64 its) (shippingFee64 (subtotal64 its))"






section \<open>Product details handlers\<close>

record product_details =
  pd_quantity :: number
  showAuthPopup :: bool
  inCart :: bool
  pd_showCheckoutModal :: bool
  pd_toasts :: "Toast list"

fun show_nat :: "nat \<Rightarrow> string" where
  "show_nat n =
     (if n < 10 then [''0123456789'' ! n]
      else show_nat (n div 10) @ [''0123456789'' ! (n mod 10)])"

definition show_number :: "number \<Rightarrow> string" where
  "show_number n = (if n < 0 then ''-'' @ show_nat (nat (- n)) else show_nat (nat n))"

definition handleAddToCart ::
  "string option \<Rightarrow> string option \<Rightarrow> string option \<Rightarrow> string \<Rightarrow> Product \<Rightarrow>
   db \<times> product_details \<Rightarrow> db \<times> product_details" where
  "handleAddToCart session fetchError insertError newRowId product w =
     (case w of (d, s) \<Rightarrow>
        (case session of
           None \<Rightarrow> (d, s\<lparr> showAuthPopup := True \<rparr>)
         | Some currentUserId \<Rightarrow>
             (case fetchError of
                Some message \<Rightarrow>
                  (d, s\<lparr> pd_toasts := pd_toasts s @
                            [destructive ''Error'' (or_else message ''Could not add product to cart.'')] \<rparr>)
              | None \<Rightarrow>
                  (case single (filter (\<lambda>r. cr_user_id r = currentUserId \<and> cr_product_id r = p_id product)
                                  (cart_items d)) of
                     Some existingCartItem \<Rightarrow>
                       (d, s\<lparr> pd_toasts := pd_toasts s @
                                 [notice ''Already in cart'' ''This product is already in your cart!''] \<rparr>)
                   | None \<Rightarrow>
                       (case insertError of
                          Some message \<Rightarrow>
                            (d, s\<lparr> pd_toasts := pd_toasts s @
                                      [destructive ''Error''
                                         (or_else message ''Could not add product to cart.'')] \<rparr>)
                        | None \<Rightarrow>
                            (d\<lparr> cart_items := cart_items d @
                                  [\<lparr> cr_id = newRowId,
                                     cr_user_id = currentUserId,
                                     cr_product_id = p_id product,
                                     cr_quantity = pd_quantity s,
                                     cr_price_at_add = displayPrice product \<rparr>] \<rparr>,
                             s\<lparr> inCart := True,
                                pd_toasts := pd_toasts s @
                                  [notice ''Added to cart!''
                                     (show_number (pd_quantity s) @ '' unit(s) of '' @ p_productName product @
                                      '' added to your shopping cart.'')] \<rparr>))))))"

definition updateQuantity :: "number \<Rightarrow> product_details \<Rightarrow> product_details" where
  "updateQuantity newQuantity s = (if newQuantity < 1 then s else s\<lparr> pd_quantity := newQuantity \<rparr>)"

section \<open>Profile page: the address book\<close>

record profile_page =
  profile :: "UserProfile option"
  editingAddress :: "Address option"
  isAddingAddress :: bool
  addressName :: string
  pp_houseNumber :: string
  pp_street :: string
  pp_area :: string
  pp_city :: string
  pp_state :: string
  pp_pincode :: string
  pp_country :: string
  addressPrimaryPhone :: string
  addressSecondaryPhone :: string
  isDefaultAddress :: bool
  pp_toasts :: "Toast list"
  pp_route :: string

definition resetAddressForm :: "profile_page \<Rightarrow> profile_page" where
  "resetAddressForm s =
     s\<lparr> addressName := [], pp_houseNumber := [], pp_street := [], pp_area := [], pp_city := [],
        pp_state := [], pp_pincode := [], pp_country := ''India'', addressPrimaryPhone := [],
        addressSecondaryPhone := [], isDefaultAddress := False \<rparr>"

definition openEditAddressForm :: "Address \<Rightarrow> profile_page \<Rightarrow> profile_page" where
  "openEditAddressForm address s =
     s\<lparr> editingAddress := Some address,
        addressName := addr_name address,
        pp_houseNumber := houseNumber address,
        pp_street := street address,
        pp_area := area address,
        pp_city := city address,
        pp_state := state address,
        pp_pincode := pincode address,
        pp_country := country address,
        addressPrimaryPhone := primaryPhone address,
        addressSecondaryPhone := or_else (nullish (secondaryPhone address) []) [],
        isDefaultAddress := isDefault address,
        isAddingAddress := True \<rparr>"

definition fetchProfileData :: "string option \<Rightarrow> string option \<Rightarrow> db \<Rightarrow> profile_page \<Rightarrow> profile_page" where
  "fetchProfileData session profileError d s =
     (case session of
        None \<Rightarrow>
          s\<lparr> pp_toasts := pp_toasts s @ [destructive ''Please log in to view your profile.'' []],
             pp_route := ''/login'' \<rparr>
      | Some userId \<Rightarrow>
          (case profileError of
             Some _ \<Rightarrow> s\<lparr> pp_toasts := pp_toasts s @ [destructive ''Failed to load profile data.'' []] \<rparr>
           | None \<Rightarrow> s\<lparr> profile := single (filter (\<lambda>p. up_id p = userId) (user_profiles d)) \<rparr>))"

text \<open>
  The local values of \<open>handleAddOrUpdateAddress\<close>: the address built from the form and
  the address list that is saved.
\<close>

definition formAddress :: "string \<Rightarrow> profile_page \<Rightarrow> Address" where
  "formAddress uuid s =
     \<lparr> addr_id = or_else (case editingAddress s of Some e \<Rightarrow> addr_id e | None \<Rightarrow> []) uuid,
       addr_name = addressName s,
       houseNumber = pp_houseNumber s,
       street = pp_street s,
       area = pp_area s,
       city = pp_city s,
       state = pp_state s,
       pincode = pp_pincode s,
       country = pp_country s,
       primaryPhone = addressPrimaryPhone s,
       secondaryPhone = or_null (addressSecondaryPhone s),
       isDefault = isDefaultAddress s \<rparr>"

definition updatedAddresses :: "string \<Rightarrow> UserProfile \<Rightarrow> profile_page \<Rightarrow> Address list" where
  "updatedAddresses uuid prof s =
     (let copied = (case addresses prof of Some xs \<Rightarrow> xs | None \<Rightarrow> []);
          cleared =
            (if isDefaultAddress s then map (\<lambda>addr. addr\<lparr> isDefault := False \<rparr>) copied else copied)
      in
        (case editingAddress s of
           Some _ \<Rightarrow>
             map (\<lambda>addr. if addr_id addr = addr_id (formAddress uuid s) then formAddress uuid s else addr)
               cleared
         | None \<Rightarrow> cleared @ [formAddress uuid s]))"

definition handleAddOrUpdateAddress ::
  "string option \<Rightarrow> string option \<Rightarrow> string option \<Rightarrow> string \<Rightarrow> db \<times> profile_page \<Rightarrow> db \<times> profile_page" where
  "handleAddOrUpdateAddress session updateError profileError uuid w =
     (case w of (d, s) \<Rightarrow>
        (case profile s of
           None \<Rightarrow> (d, s)
         | Some prof \<Rightarrow>
             (case updateError of
                Some message \<Rightarrow>
                  (d, s\<lparr> pp_toasts := pp_toasts s @
                            [destructive (or_else message ''Failed to save address.'') []] \<rparr>)
              | None \<Rightarrow>
                  (let d' = d\<lparr> user_profiles :=
                                  map (\<lambda>p. if up_id p = up_id prof
                                            then p\<lparr> addresses := Some (updatedAddresses uuid prof s) \<rparr>
                                            else p)
                                    (user_profiles d) \<rparr>
                   in (d',
                       fetchProfileData session profileError d'
                         (resetAddressForm
                            (s\<lparr> pp_toasts := pp_toasts s @
                                   [notice ''Your address has been successfully saved.'' []],
                                isAddingAddress := False,
                                editingAddress := None \<rparr>)))))))"

definition handleDeleteAddress ::
  "string option \<Rightarrow> string option \<Rightarrow> string option \<Rightarrow> string \<Rightarrow> db \<times> profile_page \<Rightarrow> db \<times> profile_page" where
  "handleDeleteAddress session updateError profileError addressId w =
     (case w of (d, s) \<Rightarrow>
        (case profile s of
           None \<Rightarrow> (d, s)
         | Some prof \<Rightarrow>
             (case addresses prof of
                None \<Rightarrow> (d, s)
              | Some xs \<Rightarrow>
                  (case updateError of
                     Some message \<Rightarrow>
                       (d, s\<lparr> pp_toasts := pp_toasts s @
                                 [destructive (or_else message ''Failed to delete address.'') []] \<rparr>)
                   | None \<Rightarrow>
                       (let d' = d\<lparr> user_profiles :=
                                       map (\<lambda>p. if up_id p = up_id prof
                                                 then p\<lparr> addresses := Some (filter (\<lambda>addr. addr_id addr \<noteq> addressId) xs) \<rparr>
                                                 else p) (user_profiles d) \<rparr>
                        in (d',
                            fetchProfileData session profileError d'
                              (s\<lparr> pp_toasts := pp_toasts s @ [notice ''The address has been removed.'' []] \<rparr>)))))))"

section \<open>Vendor orders page: the status tracker\<close>

record TimelineStep =
  label :: string
  step_status :: string

definition proTimelineSteps :: "TimelineStep list" where
  "proTimelineSteps =
     [ \<lparr> label = ''Order Confirmed'', step_status = ''confirmed'' \<rparr>,
       \<lparr> label = ''Payment Accepted'', step_status = ''payment_accepted'' \<rparr>,
       \<lparr> label = ''Order is Being Prepared'', step_status = ''preparing'' \<rparr>,
       \<lparr> label = ''Order Has Been Shipped'', step_status = ''shipped'' \<rparr>,
       \<lparr> label = ''Order Successfully Delivered'', step_status = ''delivered'' \<rparr> ]"

definition statusOrder :: "string list" where
  "statusOrder = [''confirmed'', ''payment_accepted'', ''preparing'', ''shipped'', ''delivered'']"

fun indexFrom :: "int \<Rightarrow> 'a list \<Rightarrow> 'a \<Rightarrow> int" where
  "indexFrom i [] x = - 1"
| "indexFrom i (y # ys) x = (if y = x then i else indexFrom (i + 1) ys x)"

definition indexOf :: "'a list \<Rightarrow> 'a \<Rightarrow> int" where
  "indexOf xs x = indexFrom 0 xs x"

definition availableSteps :: "Order \<Rightarrow> TimelineStep list" where
  "availableSteps currentOrder =
     (let currentStatusIndex = indexOf statusOrder (status currentOrder)
      in filter (\<lambda>step. indexOf statusOrder (step_status step) > currentStatusIndex) proTimelineSteps)"

record orders_page =
  op_orders :: "Order list"
  selectedOrder :: "Order option"
  modalOpen :: bool
  op_toasts :: "Toast list"

text \<open>
  The card of an order shows its "Update Status" button unless the order is delivered or
  cancelled; a click selects the order, as the page holds it at that moment, and opens
  the status modal, which renders one button per available step of the selected order.
\<close>

definition updateStatusButton :: "Order \<Rightarrow> bool" where
  "updateStatusButton order' = (status order' \<noteq> ''delivered'' \<and> status order' \<noteq> ''cancelled'')"

definition openStatusModal :: "Order \<Rightarrow> orders_page \<Rightarrow> orders_page" where
  "openStatusModal order' s = s\<lparr> selectedOrder := Some order', modalOpen := True \<rparr>"

definition set_status :: "string \<Rightarrow> string \<Rightarrow> Order list \<Rightarrow> Order list" where
  "set_status orderId' newStatus os =
     map (\<lambda>order. if order_row_id order = orderId' then order\<lparr> status := newStatus \<rparr> else order) os"

definition handleStatusUpdate ::
  "string option \<Rightarrow> string \<Rightarrow> string \<Rightarrow> db \<times> orders_page \<Rightarrow> db \<times> orders_page" where
  "handleStatusUpdate updateError orderId' newStatus w =
     (case w of (d, s) \<Rightarrow>
        (case updateError of
           Some _ \<Rightarrow>
             (d, s\<lparr> op_toasts := op_toasts s @
                       [destructive ''Update Failed'' ''Could not update order status.''] \<rparr>)
         | None \<Rightarrow>
             (d\<lparr> orders := set_status orderId' newStatus (orders d) \<rparr>,
              s\<lparr> op_toasts := op_toasts s @
                   [notice ''Status Updated!''
                      (''Order '' @ take 8 orderId' @ '' status set to '' @ newStatus @ ''.'')],
                 modalOpen := False,
                 op_orders := set_status orderId' newStatus (op_orders s) \<rparr>)))"

text \<open>
  A click on the button of a step calls \<open>handleStatusUpdate\<close> with the selected order's
  identifier and that step's status; the handler above writes the status it is given.
\<close>

declare show_nat.simps [simp del]

declare if_image_distrib [simp del]

section \<open>Sample data\<close>

definition honey :: ProductJoin where
  "honey = \<lparr> product_name = Some ''Organic Honey'', discount_price = Some 200, original_price = Some 250 \<rparr>"

definition rice :: ProductJoin where
  "rice = \<lparr> product_name = Some ''Brown Rice'', discount_price = Some 500, original_price = Some 500 \<rparr>"

definition honey_line :: CartItem where
  "honey_line =
     \<lparr> item_id = ''line-1'', product_id = ''prod-honey'', quantity = 1, price_at_add = 180,
       products = Some honey \<rparr>"

definition rice_line :: CartItem where
  "rice_line =
     \<lparr> item_id = ''line-2'', product_id = ''prod-rice'', quantity = 2, price_at_add = 500,
       products = Some rice \<rparr>"

definition marked_up :: Product where
  "marked_up =
     \<lparr> p_id = ''prod-ghee'', p_productName = ''Ghee'', originalPrice = 100, discountPrice = Some 120 \<rparr>"

definition shipped_order :: Order where
  "shipped_order =
     \<lparr> order_row_id = ''order-row-1'', user_id = ''user-1'', total_amount = 299,
       payment_id = Some ''pay_1'', order_id = ''order_1'', signature = None,
       status = ''shipped'', customer_name = ''Asha'', primary_phone = ''9876543210'',
       secondary_phone = None, o_country = ''India'', o_state = ''Kerala'', o_city = ''Kochi'',
       o_pincode = ''682001'', o_area = ''Fort'', o_street = ''Main Road'', house_number = ''12'',
       order_items =
         [\<lparr> oi_id = ''oi-1'', oi_product_id = ''prod-honey'', oi_quantity = 1, price_at_purchase = 200 \<rparr>] \<rparr>"

definition vendor_db :: db where
  "vendor_db = \<lparr> cart_items = [], orders = [shipped_order], user_profiles = [], products_table = [] \<rparr>"

definition vendor_page :: orders_page where
  "vendor_page =
     \<lparr> op_orders = [shipped_order], selectedOrder = Some shipped_order, modalOpen = True,
       op_toasts = [] \<rparr>"

text \<open>Well-formed address book: identifiers are non-empty and pairwise distinct.\<close>

definition address_ids_ok :: "Address list \<Rightarrow> bool" where
  "address_ids_ok xs = (distinct (map addr_id xs) \<and> [] \<notin> set (map addr_id xs))"

definition book :: "UserProfile \<Rightarrow> Address list" where
  "book prof = (case addresses prof of Some xs \<Rightarrow> xs | None \<Rightarrow> [])"

definition home_address :: Address where
  "home_address =
     \<lparr> addr_id = ''addr-home'', addr_name = ''Home'', houseNumber = ''12'', street = ''Main Road'',
       area = ''Fort'', city = ''Kochi'', state = ''Kerala'', pincode = ''682001'', country = ''India'',
       primaryPhone = ''9876543210'', secondaryPhone = None, isDefault = True \<rparr>"

definition office_address :: Address where
  "office_address =
     \<lparr> addr_id = ''addr-office'', addr_name = ''Office'', houseNumber = ''7'', street = ''Park Lane'',
       area = ''Marine Drive'', city = ''Kochi'', state = ''Kerala'', pincode = ''682011'',
       country = ''India'', primaryPhone = ''9876543210'', secondaryPhone = None, isDefault = False \<rparr>"

definition asha :: UserProfile where
  "asha =
     \<lparr> up_id = ''user-1'', up_name = ''Asha'', up_phone = ''9876543210'',
       addresses = Some [home_address, office_address] \<rparr>"

definition honey_row :: cart_row where
  "honey_row =
     \<lparr> cr_id = ''line-1'', cr_user_id = ''user-1'', cr_product_id = ''prod-honey'',
       cr_quantity = 1, cr_price_at_add = 180 \<rparr>"

definition rice_row :: cart_row where
  "rice_row =
     \<lparr> cr_id = ''line-2'', cr_user_id = ''user-1'', cr_product_id = ''prod-rice'',
       cr_quantity = 2, cr_price_at_add = 500 \<rparr>"

definition other_row :: cart_row where
  "other_row =
     \<lparr> cr_id = ''line-3'', cr_user_id = ''user-2'', cr_product_id = ''prod-rice'',
       cr_quantity = 1, cr_price_at_add = 500 \<rparr>"

definition shop_db :: db where
  "shop_db =
     \<lparr> cart_items = [honey_row, rice_row, other_row],
       orders = [],
       user_profiles = [asha],
       products_table =
         [\<lparr> pr_id = ''prod-honey'', pr_columns = honey \<rparr>, \<lparr> pr_id = ''prod-rice'', pr_columns = rice \<rparr>] \<rparr>"

definition editing_office :: profile_page where
  "editing_office =
     \<lparr> profile = Some asha, editingAddress = Some office_address, isAddingAddress = True,
       addressName = ''Office'', pp_houseNumber = ''7'', pp_street = ''Park Lane'',
       pp_area = ''Marine Drive'', pp_city = ''Kochi'', pp_state = ''Kerala'', pp_pincode = ''682011'',
       pp_country = ''India'', addressPrimaryPhone = ''9876543210'', addressSecondaryPhone = [],
       isDefaultAddress = True, pp_toasts = [], pp_route = ''/profile'' \<rparr>"

definition searching_cart :: cart_page where
  "searching_cart =
     \<lparr> cartItems = [rice_line, honey_line], searchTerm = ''honey'', showCheckoutModal = True,
       cp_error = None, cp_toasts = [], cp_route = ''/cart'' \<rparr>"

definition checkout_modal :: modal where
  "checkout_modal =
     \<lparr> m_items = checkoutItems (filteredCartItems ''honey'' [rice_line, honey_line]),
       userName = ''Asha'', m_primaryPhone = ''9876543210'', m_secondaryPhone = [],
       m_country = ''India'', m_state = ''Kerala'', m_city = ''Kochi'', m_pincode = ''682011'',
       m_area = ''Marine Drive'', m_street = ''Park Lane'', m_houseNumber = ''7'',
       userAddresses = [home_address, office_address], selectedAddressId = Some ''addr-office'',
       showNewAddressForm = False, orderId = ''order_1700000000000_42'', showRazorpay = True,
       m_error = None, m_toasts = [] \<rparr>"

definition paid :: razorpay_response where
  "paid = \<lparr> razorpay_payment_id = ''pay_1'', razorpay_order_id = [], razorpay_signature = ''sig_1'' \<rparr>"

definition uuids :: "nat \<Rightarrow> string" where
  "uuids i = ''uuid-'' @ show_nat i"

text \<open>Data-model invariant of the cart: at most one line per (user, product) pair.\<close>

definition one_line_per_product :: "cart_row list \<Rightarrow> bool" where
  "one_line_per_product rows = distinct (map (\<lambda>r. (cr_user_id r, cr_product_id r)) rows)"

definition honey_product :: Product where
  "honey_product =
     \<lparr> p_id = ''prod-honey'', p_productName = ''Organic Honey'', originalPrice = 250,
       discountPrice = Some 200 \<rparr>"

definition viewing :: product_details where
  "viewing =
     \<lparr> pd_quantity = 3, showAuthPopup = False, inCart = True, pd_showCheckoutModal = False,
       pd_toasts = [] \<rparr>"


section \<open>Properties of the cart totals\<close>

lemma foldl_add_sum_list: "foldl (\<lambda>s x. s + f x) a xs = a + sum_list (map f xs)" for a :: int
  by (induction xs arbitrary: a) simp_all

lemma subtotal_sum_list:
  "subtotal filtered = sum_list (map (\<lambda>item. unitPrice item * quantity item) filtered)"
  by (simp add: subtotal_def foldl_add_sum_list)

lemma modal_subtotal_sum_list:
  "modal_subtotal items = sum_list (map (\<lambda>item. co_price_at_add item * co_quantity item) items)"
  by (simp add: modal_subtotal_def foldl_add_sum_list)

lemma modal_subtotal_checkoutItems: "modal_subtotal (checkoutItems filtered) = subtotal filtered"
  by (simp add: modal_subtotal_sum_list subtotal_sum_list checkoutItems_def comp_def)

text \<open>
  Quantities are kept at 1 or more by the quantity guards and prices at 0 or more by the
  product form (\<open>min: 0\<close>); such carts have a non-negative subtotal.
\<close>

lemma subtotal_nonneg:
  assumes "\<forall>item \<in> set filtered. 0 \<le> unitPrice item \<and> 0 \<le> quantity item"
  shows "0 \<le> subtotal filtered"
  unfolding subtotal_sum_list using assms by (induction filtered) simp_all

lemma modal_subtotal_nonneg:
  assumes "\<forall>item \<in> set items. 0 \<le> co_price_at_add item \<and> 0 \<le> co_quantity item"
  shows "0 \<le> modal_subtotal items"
  unfolding modal_subtotal_sum_list using assms by (induction items) simp_all

lemma shippingFee_negative: "sub < 0 \<Longrightarrow> shippingFee sub = 0"
  by (simp add: shippingFee_def)

lemmas price_eval = subtotal_def unitPrice_def nullish_def or_else_def checkoutItems_def
  modal_subtotal_def cart_total_def totalAmount_def shippingFee_def

lemma lower_samples:
  "toLowerCase ''Organic Honey'' = ''organic honey''"
  "toLowerCase ''Brown Rice'' = ''brown rice''"
  "toLowerCase ''honey'' = ''honey''"
  "toLowerCase [] = []"
  by (simp_all add: toLowerCase_def lower_char_def)

lemma filtered_samples:
  "filteredCartItems [] [honey_line] = [honey_line]"
  "filteredCartItems [] [rice_line] = [rice_line]"
  "filteredCartItems ''honey'' [honey_line, rice_line] = [honey_line]"
  "filteredCartItems ''honey'' [rice_line, honey_line] = [honey_line]"
  by (simp_all add: filteredCartItems_def matches_search_def honey_line_def honey_def
      rice_line_def rice_def lower_samples)

text \<open>
  Claim C1.  For every cart (whose subtotal is not negative, as the quantity and price
  guards ensure), on the cart page and in the checkout modal alike, the grand total is
  the subtotal plus the shipping fee, the shipping fee is 0 whenever the subtotal is 0 or
  at least 1000, and otherwise the shipping fee is 99.
\<close>

theorem cart_totals:
  assumes "0 \<le> subtotal filtered" and "0 \<le> modal_subtotal its"
  shows "cart_total filtered = subtotal filtered + shippingFee (subtotal filtered)
       \<and> (subtotal filtered = 0 \<or> subtotal filtered \<ge> 1000 \<longrightarrow> shippingFee (subtotal filtered) = 0)
       \<and> (\<not> (subtotal filtered = 0 \<or> subtotal filtered \<ge> 1000) \<longrightarrow> shippingFee (subtotal filtered) = 99)
       \<and> totalAmount its = modal_subtotal its + shippingFee (modal_subtotal its)
       \<and> (modal_subtotal its = 0 \<or> modal_subtotal its \<ge> 1000 \<longrightarrow> shippingFee (modal_subtotal its) = 0)
       \<and> (\<not> (modal_subtotal its = 0 \<or> modal_subtotal its \<ge> 1000) \<longrightarrow> shippingFee (modal_subtotal its) = 99)"
  using assms by (simp add: cart_total_def totalAmount_def shippingFee_def)

theorem cart_totals_witness:
  "0 \<le> subtotal (filteredCartItems [] [honey_line])
   \<and> 0 \<le> modal_subtotal (checkoutItems (filteredCartItems [] [honey_line]))
   \<and> subtotal (filteredCartItems [] [honey_line]) = 200
   \<and> shippingFee (subtotal (filteredCartItems [] [honey_line])) = 99
   \<and> cart_total (filteredCartItems [] [honey_line]) = 299
   \<and> totalAmount (checkoutItems (filteredCartItems [] [honey_line])) = 299"
  using cart_totals [of "filteredCartItems [] [honey_line]"
      "checkoutItems (filteredCartItems [] [honey_line])"]
  unfolding filtered_samples
  by (simp add: honey_line_def honey_def price_eval)

text \<open>The free-shipping scenario: one line of unit price 500 and quantity 2.\<close>

lemma scenario_free_shipping:
  "subtotal (filteredCartItems [] [rice_line]) = 1000
   \<and> shippingFee (subtotal (filteredCartItems [] [rice_line])) = 0
   \<and> cart_total (filteredCartItems [] [rice_line]) = 1000"
  unfolding filtered_samples
  by (simp add: rice_line_def rice_def price_eval)

text \<open>The same rule on the doubles of the source, where the sum and the total are rounded.\<close>

lemma cart_totals64:
  assumes "0 \<le> subtotal64 its"
  shows "totalAmount64 its = dadd (subtotal64 its) (shippingFee64 (subtotal64 its))
       \<and> (subtotal64 its = 0 \<or> subtotal64 its \<ge> 1000 \<longrightarrow> shippingFee64 (subtotal64 its) = 0)
       \<and> (\<not> (subtotal64 its = 0 \<or> subtotal64 its \<ge> 1000) \<longrightarrow> shippingFee64 (subtotal64 its) = 99)"
  using assms by (simp add: totalAmount64_def shippingFee64_def)

section \<open>Which price a cart line is charged at\<close>

text \<open>
  Claim C2 as stated (the subtotal and the checkout line use the price captured when the
  line was added) fails: a line added at 180 whose product now sells at 200 is summed and
  handed to checkout at 200.
\<close>

theorem price_at_add_counterexample:
  "subtotal (filteredCartItems [] [honey_line]) = 200
   \<and> spec_subtotal_at_add (filteredCartItems [] [honey_line]) = 180
   \<and> subtotal (filteredCartItems [] [honey_line]) \<noteq> spec_subtotal_at_add (filteredCartItems [] [honey_line])
   \<and> price_at_add honey_line = 180
   \<and> map co_price_at_add (checkoutItems (filteredCartItems [] [honey_line])) = [200]
   \<and> map co_price_at_add (checkoutItems (filteredCartItems [] [honey_line])) \<noteq> [price_at_add honey_line]"
  unfolding filtered_samples
  by (simp add: honey_line_def honey_def price_eval spec_subtotal_at_add_def)

lemma filtered_has_product:
  assumes "item \<in> set (filteredCartItems term cartItems')"
  shows "\<exists>p n. products item = Some p \<and> product_name p = Some n"
  using assms by (auto simp: filteredCartItems_def matches_search_def split: option.splits)

text \<open>
  Claim C2, amended.  For every cart line shown on the cart page, the price used for the
  cart subtotal and handed to the checkout modal as the line's price is the joined
  product's current discount price when it has one, else its current original price when
  it has one, and the price-at-add only when the product carries neither; the modal's
  subtotal of the lines it is handed equals the cart page's subtotal.
\<close>

theorem cart_price_is_catalog_price:
  "subtotal (filteredCartItems term cartItems') =
     sum_list (map (\<lambda>item. unitPrice item * quantity item) (filteredCartItems term cartItems'))
   \<and> modal_subtotal (checkoutItems (filteredCartItems term cartItems')) =
       subtotal (filteredCartItems term cartItems')
   \<and> map co_price_at_add (checkoutItems (filteredCartItems term cartItems')) =
       map unitPrice (filteredCartItems term cartItems')
   \<and> (\<forall>item \<in> set (filteredCartItems term cartItems').
        \<exists>p. products item = Some p \<and>
          unitPrice item =
            (case discount_price p of
               Some d \<Rightarrow> d
             | None \<Rightarrow> (case original_price p of Some ori \<Rightarrow> ori | None \<Rightarrow> price_at_add item)))"
proof -
  have "\<exists>p. products item = Some p \<and>
          unitPrice item =
            (case discount_price p of
               Some d \<Rightarrow> d
             | None \<Rightarrow> (case original_price p of Some ori \<Rightarrow> ori | None \<Rightarrow> price_at_add item))"
    if "item \<in> set (filteredCartItems term cartItems')" for item
    using filtered_has_product [OF that]
    by (auto simp: unitPrice_def nullish_def split: option.splits)
  moreover have "map co_price_at_add (checkoutItems (filteredCartItems term cartItems')) =
       map unitPrice (filteredCartItems term cartItems')"
    by (simp add: checkoutItems_def comp_def)
  moreover note subtotal_sum_list [of "filteredCartItems term cartItems'"]
    modal_subtotal_checkoutItems [of "filteredCartItems term cartItems'"]
  ultimately show ?thesis by blast
qed

theorem cart_price_is_catalog_price_witness:
  "honey_line \<in> set (filteredCartItems ''honey'' [honey_line, rice_line])
   \<and> unitPrice honey_line = 200 \<and> price_at_add honey_line = 180
   \<and> subtotal (filteredCartItems ''honey'' [honey_line, rice_line]) = 200
   \<and> modal_subtotal (checkoutItems (filteredCartItems ''honey'' [honey_line, rice_line])) = 200"
  using cart_price_is_catalog_price [of "''honey''" "[honey_line, rice_line]"]
  unfolding filtered_samples
  by (simp add: honey_line_def honey_def price_eval)

section \<open>The effective unit price\<close>

text \<open>
  Claim C3 as stated (the discount price only when it is lower than the original price)
  fails: a product of original price 100 and discount price 120 is priced at 120, where
  the stated contract gives 100.
\<close>

theorem effective_price_counterexample:
  "displayPrice marked_up = 120 \<and> spec_effectiveUnitPrice marked_up = 100
   \<and> displayPrice marked_up \<noteq> spec_effectiveUnitPrice marked_up"
  by (simp add: marked_up_def displayPrice_def spec_effectiveUnitPrice_def nullish_def)

text \<open>
  Claim C3, amended.  For every product, the effective unit price equals the discount
  price whenever a discount price is present, whether or not it is lower than the
  original price, and equals the original price otherwise; it agrees with the stated
  contract exactly when the discount price is absent or not above the original price.
  The cart page likewise charges the joined product's discount price whenever present.
\<close>

theorem effective_price_is_discount_when_present:
  "displayPrice product = (case discountPrice product of Some d \<Rightarrow> d | None \<Rightarrow> originalPrice product)
   \<and> (displayPrice product = spec_effectiveUnitPrice product \<longleftrightarrow>
        (case discountPrice product of Some d \<Rightarrow> d \<le> originalPrice product | None \<Rightarrow> True))
   \<and> (\<forall>p d. products item = Some p \<and> discount_price p = Some d \<longrightarrow> unitPrice item = d)"
  by (auto simp: displayPrice_def spec_effectiveUnitPrice_def nullish_def unitPrice_def split: option.splits)

theorem effective_price_is_discount_when_present_witness:
  "discountPrice marked_up = Some 120 \<and> displayPrice marked_up = 120
   \<and> displayPrice marked_up \<noteq> spec_effectiveUnitPrice marked_up
   \<and> products honey_line = Some honey \<and> discount_price honey = Some 200 \<and> unitPrice honey_line = 200"
  using effective_price_is_discount_when_present [of marked_up honey_line]
  by (simp add: marked_up_def honey_line_def honey_def)

section \<open>The order status tracker\<close>

lemma indexFrom_range:
  "(x \<in> set xs \<longrightarrow> i \<le> indexFrom i xs x) \<and> (x \<notin> set xs \<longrightarrow> indexFrom i xs x = - 1)"
proof (induction xs arbitrary: i)
  case Nil
  show ?case by simp
next
  case (Cons y ys)
  from Cons [of "i + 1"] show ?case by auto
qed

lemma indexOf_absent: "x \<notin> set xs \<Longrightarrow> indexOf xs x = - 1"
  by (simp add: indexOf_def indexFrom_range)

lemma indexOf_present: "x \<in> set xs \<Longrightarrow> 0 \<le> indexOf xs x"
  using indexFrom_range [of x xs 0] by (simp add: indexOf_def)

lemma indexOf_lower: "- 1 \<le> indexOf xs x"
  using indexOf_absent [of x xs] indexOf_present [of x xs] by (cases "x \<in> set xs") simp_all

lemma step_statuses: "map step_status proTimelineSteps = statusOrder"
  by (simp add: proTimelineSteps_def statusOrder_def)

lemma map_filter_status:
  "map step_status (filter (\<lambda>step. P (step_status step)) steps) = filter P (map step_status steps)"
  by (induction steps) simp_all

lemma available_statuses:
  "map step_status (availableSteps currentOrder) =
     filter (\<lambda>st. indexOf statusOrder st > indexOf statusOrder (status currentOrder)) statusOrder"
  unfolding availableSteps_def Let_def
  using map_filter_status [of "\<lambda>st. indexOf statusOrder st > indexOf statusOrder (status currentOrder)"
      proTimelineSteps]
  by (simp only: step_statuses)

lemma index_samples:
  "indexOf statusOrder ''confirmed'' = 0"
  "indexOf statusOrder ''payment_accepted'' = 1"
  "indexOf statusOrder ''preparing'' = 2"
  "indexOf statusOrder ''shipped'' = 3"
  "indexOf statusOrder ''delivered'' = 4"
  "indexOf statusOrder ''cancelled'' = - 1"
  by (simp_all add: indexOf_def statusOrder_def)
lemma offered_iff_later:
  "targetStatus \<in> set (map step_status (availableSteps currentOrder)) \<longleftrightarrow>
     indexOf statusOrder targetStatus > indexOf statusOrder (status currentOrder)"
proof
  assume "targetStatus \<in> set (map step_status (availableSteps currentOrder))"
  then show "indexOf statusOrder targetStatus > indexOf statusOrder (status currentOrder)"
    by (simp add: available_statuses)
next
  assume later: "indexOf statusOrder targetStatus > indexOf statusOrder (status currentOrder)"
  have "targetStatus \<in> set statusOrder"
  proof (rule ccontr)
    assume "targetStatus \<notin> set statusOrder"
    then have "indexOf statusOrder targetStatus = - 1" by (rule indexOf_absent)
    with later indexOf_lower [of statusOrder "status currentOrder"] show False by simp
  qed
  with later show "targetStatus \<in> set (map step_status (availableSteps currentOrder))"
    by (simp add: available_statuses)
qed

lemma set_status_sets:
  "\<forall>order \<in> set (set_status i t os). order_row_id order = i \<longrightarrow> status order = t"
  by (simp add: set_status_def)

lemma later_stages:
  "filter (\<lambda>st. 4 < indexOf statusOrder st) statusOrder = []"
  "filter (\<lambda>st. 3 < indexOf statusOrder st) statusOrder = [''delivered'']"
  by (simp_all add: statusOrder_def indexOf_def)

lemma set_status_others:
  "\<forall>order \<in> set (set_status i t os). order_row_id order \<noteq> i \<longrightarrow> order \<in> set os"
  by (simp add: set_status_def)

text \<open>
  Claim C4 as stated (advancing to a target that is not later in the stage list fails
  with InvalidTransition) fails: the code has one function that changes a status,
  \<open>handleStatusUpdate\<close>, it checks nothing, and called for a shipped order with the
  earlier stage "preparing" it writes "preparing".
\<close>

theorem unchecked_status_update_counterexample:
  "status shipped_order = ''shipped''
   \<and> \<not> indexOf statusOrder ''preparing'' > indexOf statusOrder (status shipped_order)
   \<and> map status (orders vendor_db) = [''shipped'']
   \<and> map status (orders (fst (handleStatusUpdate None (order_row_id shipped_order) ''preparing''
          (vendor_db, vendor_page)))) = [''preparing'']"
proof -
  have st: "status shipped_order = ''shipped''" by (simp add: shipped_order_def)
  have "\<not> indexOf statusOrder ''preparing'' > indexOf statusOrder (status shipped_order)"
    unfolding st index_samples by simp
  moreover have "map status (orders vendor_db) = [''shipped'']"
    by (simp add: vendor_db_def st)
  moreover have "map status (orders (fst (handleStatusUpdate None (order_row_id shipped_order) ''preparing''
          (vendor_db, vendor_page)))) = [''preparing'']"
    by (simp add: handleStatusUpdate_def set_status_def vendor_db_def)
  ultimately show ?thesis using st by (intro conjI)
qed

text \<open>
  Claim C4, amended.  For every order and every target status, the vendor's status modal
  offers the target if and only if the index of the target in the stage list
  [confirmed, payment_accepted, preparing, shipped, delivered] is strictly greater than
  the index of the current status of the order the modal was opened with (\<open>indexOf\<close>, so
  \<open>-1\<close> for a status outside the list), and the page opens the modal only for an order
  that is neither delivered nor cancelled.  \<open>handleStatusUpdate\<close> itself checks nothing and has no InvalidTransition
  failure: when the store takes the update, the order of the given identifier gets the
  status the handler was called with, whichever it is, and the other orders are kept;
  when the store refuses, the store is unchanged.  For a shipped order the modal offers
  delivered and nothing else, so it does not offer preparing.
\<close>

theorem status_modal_offers_later_stages:
  "(targetStatus \<in> set (map step_status (availableSteps currentOrder)) \<longleftrightarrow>
      indexOf statusOrder targetStatus > indexOf statusOrder (status currentOrder))
   \<and> (updateStatusButton currentOrder \<longleftrightarrow>
        status currentOrder \<noteq> ''delivered'' \<and> status currentOrder \<noteq> ''cancelled'')
   \<and> (status currentOrder = ''delivered'' \<longrightarrow> availableSteps currentOrder = [])
   \<and> orders (fst (handleStatusUpdate None orderId' newStatus (d, s))) =
       set_status orderId' newStatus (orders d)
   \<and> (\<forall>order' \<in> set (orders (fst (handleStatusUpdate None orderId' newStatus (d, s)))).
         order_row_id order' = orderId' \<longrightarrow> status order' = newStatus)
   \<and> (\<forall>order' \<in> set (orders (fst (handleStatusUpdate None orderId' newStatus (d, s)))).
         order_row_id order' \<noteq> orderId' \<longrightarrow> order' \<in> set (orders d))
   \<and> fst (handleStatusUpdate (Some message) orderId' newStatus (d, s)) = d
   \<and> (status currentOrder = ''shipped'' \<longrightarrow>
        map step_status (availableSteps currentOrder) = [''delivered''])"
proof -
  have button: "updateStatusButton currentOrder \<longleftrightarrow>
        status currentOrder \<noteq> ''delivered'' \<and> status currentOrder \<noteq> ''cancelled''"
    by (simp add: updateStatusButton_def)
  have last_stage: "status currentOrder = ''delivered'' \<longrightarrow> availableSteps currentOrder = []"
  proof
    assume st: "status currentOrder = ''delivered''"
    have "map step_status (availableSteps currentOrder) = []"
      unfolding available_statuses st index_samples by (rule later_stages)
    then show "availableSteps currentOrder = []" by simp
  qed
  have written: "orders (fst (handleStatusUpdate None orderId' newStatus (d, s))) =
       set_status orderId' newStatus (orders d)"
    by (simp add: handleStatusUpdate_def)
  have target: "\<forall>order' \<in> set (orders (fst (handleStatusUpdate None orderId' newStatus (d, s)))).
         order_row_id order' = orderId' \<longrightarrow> status order' = newStatus"
    unfolding written by (rule set_status_sets)
  have others: "\<forall>order' \<in> set (orders (fst (handleStatusUpdate None orderId' newStatus (d, s)))).
         order_row_id order' \<noteq> orderId' \<longrightarrow> order' \<in> set (orders d)"
    unfolding written by (rule set_status_others)
  have refused: "fst (handleStatusUpdate (Some message) orderId' newStatus (d, s)) = d"
    by (simp add: handleStatusUpdate_def)
  have shipped: "status currentOrder = ''shipped'' \<longrightarrow>
        map step_status (availableSteps currentOrder) = [''delivered'']"
  proof
    assume st: "status currentOrder = ''shipped''"
    show "map step_status (availableSteps currentOrder) = [''delivered'']"
      unfolding available_statuses st index_samples by (rule later_stages)
  qed
  show ?thesis
    by (rule conjI [OF offered_iff_later conjI [OF button conjI [OF last_stage conjI [OF written
            conjI [OF target conjI [OF others conjI [OF refused shipped]]]]]]])
qed

theorem status_modal_offers_later_stages_witness:
  "status shipped_order = ''shipped''
   \<and> updateStatusButton shipped_order
   \<and> map step_status (availableSteps shipped_order) = [''delivered'']
   \<and> ''delivered'' \<in> set (map step_status (availableSteps shipped_order))
   \<and> ''preparing'' \<notin> set (map step_status (availableSteps shipped_order))
   \<and> map status (orders (fst (handleStatusUpdate None (order_row_id shipped_order) ''delivered''
          (vendor_db, vendor_page)))) = [''delivered'']"
proof -
  note t = status_modal_offers_later_stages [of "''delivered''" shipped_order
      "order_row_id shipped_order" "''delivered''" vendor_db vendor_page "''offline''"]
  have st: "status shipped_order = ''shipped''" by (simp add: shipped_order_def)
  from t st have offered: "map step_status (availableSteps shipped_order) = [''delivered'']"
    by (elim conjE) (erule (1) mp)
  from t have "updateStatusButton shipped_order \<longleftrightarrow>
      status shipped_order \<noteq> ''delivered'' \<and> status shipped_order \<noteq> ''cancelled''"
    by (elim conjE)
  then have button: "updateStatusButton shipped_order" unfolding st by simp
  from t have "orders (fst (handleStatusUpdate None (order_row_id shipped_order) ''delivered''
          (vendor_db, vendor_page))) =
      set_status (order_row_id shipped_order) ''delivered'' (orders vendor_db)"
    by (elim conjE)
  then have written: "map status (orders (fst (handleStatusUpdate None (order_row_id shipped_order) ''delivered''
          (vendor_db, vendor_page)))) = [''delivered'']"
    by (simp add: set_status_def vendor_db_def)
  have inside: "''delivered'' \<in> set (map step_status (availableSteps shipped_order))"
    and outside: "''preparing'' \<notin> set (map step_status (availableSteps shipped_order))"
    unfolding offered by simp_all
  from st button offered inside outside written show ?thesis by (intro conjI)
qed

section \<open>The address book keeps one default\<close>

lemma cleared_no_default:
  "filter isDefault (map (\<lambda>addr. addr\<lparr> isDefault := False \<rparr>) xs) = []"
  by (induction xs) simp_all

lemma replaced_defaults:
  "length (filter isDefault
      (map (\<lambda>addr. if addr_id addr = k then new else addr)
         (map (\<lambda>addr. addr\<lparr> isDefault := False \<rparr>) xs))) =
   (if isDefault new then length (filter (\<lambda>addr. addr_id addr = k) xs) else 0)"
  by (induction xs) simp_all

lemma selected_defaults:
  "length (filter isDefault (map (\<lambda>addr. addr\<lparr> isDefault := (Some (addr_id addr) = sel) \<rparr>) xs)) =
   length (filter (\<lambda>addr. Some (addr_id addr) = sel) xs)"
  by (induction xs) simp_all

lemma distinct_id_once:
  assumes "distinct (map addr_id xs)" and "e \<in> set xs"
  shows "length (filter (\<lambda>addr. addr_id addr = addr_id e) xs) = 1"
  using assms
proof (induction xs)
  case Nil
  then show ?case by simp
next
  case (Cons a xs)
  show ?case
  proof (cases "addr_id a = addr_id e")
    case True
    with Cons.prems have "\<forall>x \<in> set xs. addr_id x \<noteq> addr_id e" by (auto simp: image_iff)
    then have "filter (\<lambda>addr. addr_id addr = addr_id e) xs = []" by (simp add: filter_empty_conv)
    with True show ?thesis by simp
  next
    case False
    with Cons.prems have "e \<in> set xs" by auto
    with Cons False show ?thesis by simp
  qed
qed

lemma find_in_set: "find P xs = Some x \<Longrightarrow> x \<in> set xs \<and> P x"
  by (induction xs) (auto split: if_splits)

lemma upsert_defaults:
  assumes "isDefaultAddress s"
  shows "length (filter isDefault (updatedAddresses uuid prof s)) =
     (case editingAddress s of
        None \<Rightarrow> 1
      | Some e \<Rightarrow> length (filter (\<lambda>addr. addr_id addr = or_else (addr_id e) uuid) (book prof)))"
proof (cases "editingAddress s")
  case None
  have df: "isDefault (formAddress uuid s)" using assms by (simp add: formAddress_def)
  have "updatedAddresses uuid prof s =
          map (\<lambda>addr. addr\<lparr> isDefault := False \<rparr>) (book prof) @ [formAddress uuid s]"
    unfolding updatedAddresses_def Let_def book_def using assms None
    by (simp only: option.case if_True)
  then show ?thesis using df None by (simp add: cleared_no_default)
next
  case (Some e)
  have id: "addr_id (formAddress uuid s) = or_else (addr_id e) uuid"
    by (simp add: formAddress_def Some)
  have df: "isDefault (formAddress uuid s)" using assms by (simp add: formAddress_def)
  have "updatedAddresses uuid prof s =
          map (\<lambda>addr. if addr_id addr = or_else (addr_id e) uuid then formAddress uuid s else addr)
            (map (\<lambda>addr. addr\<lparr> isDefault := False \<rparr>) (book prof))"
    unfolding updatedAddresses_def Let_def book_def id using assms Some
    by (simp only: option.case if_True)
  then have "length (filter isDefault (updatedAddresses uuid prof s)) =
      length (filter (\<lambda>addr. addr_id addr = or_else (addr_id e) uuid) (book prof))"
    using replaced_defaults [of "or_else (addr_id e) uuid" "formAddress uuid s" "book prof"] df
    by (simp only: if_True)
  then show ?thesis using Some by (simp only: option.case)
qed

lemma saved_addresses:
  assumes "profile s = Some prof"
  shows "user_profiles (fst (handleAddOrUpdateAddress session None profileError uuid (d, s))) =
     map (\<lambda>p. if up_id p = up_id prof then p\<lparr> addresses := Some (updatedAddresses uuid prof s) \<rparr> else p)
       (user_profiles d)"
  using assms by (simp add: handleAddOrUpdateAddress_def Let_def)

lemma checkout_saved_addresses:
  assumes "currentShippingAddress uuidv4 m \<noteq> None"
  shows "user_profiles (fst (cart_checkout_payment (Some uid) uuidv4 rid None orderError deleteError
            (PaymentSucceeded response) (d, page, m))) =
     map (\<lambda>p. if up_id p = uid
               then p\<lparr> up_name := userName m, up_phone := m_primaryPhone m,
                       addresses := Some (updatedAddressesForProfile uuidv4 m) \<rparr>
               else p) (user_profiles d)"
  using assms
  by (auto simp: cart_checkout_payment_def RazorpayPayment_def handlePaymentSuccess_def Let_def
      save_profile_def handleOrderSuccess_def split: option.splits prod.splits)

lemma checkout_defaults:
  assumes "address_ids_ok (userAddresses m)" and "currentShippingAddress uuidv4 m \<noteq> None"
  shows "length (filter isDefault (updatedAddressesForProfile uuidv4 m)) = 1"
proof (cases "selectedAddressId m = Some ''new''")
  case True
  then show ?thesis
    by (simp add: updatedAddressesForProfile_def cleared_no_default newAddress_def)
next
  case False
  with assms(2) obtain a where a: "find (\<lambda>addr. Some (addr_id addr) = selectedAddressId m) (userAddresses m) = Some a"
    by (auto simp: currentShippingAddress_def)
  then have mem: "a \<in> set (userAddresses m)" and sel: "Some (addr_id a) = selectedAddressId m"
    using find_in_set [OF a] by simp_all
  have "updatedAddressesForProfile uuidv4 m =
      map (\<lambda>addr. addr\<lparr> isDefault := (Some (addr_id addr) = selectedAddressId m) \<rparr>) (userAddresses m)"
    using False assms(2) by (simp add: updatedAddressesForProfile_def)
  then have "length (filter isDefault (updatedAddressesForProfile uuidv4 m)) =
      length (filter (\<lambda>addr. Some (addr_id addr) = selectedAddressId m) (userAddresses m))"
    by (simp only: selected_defaults)
  also have "(\<lambda>addr. Some (addr_id addr) = selectedAddressId m) = (\<lambda>addr. addr_id addr = addr_id a)"
    using sel [symmetric] by auto
  also have "length (filter (\<lambda>addr. addr_id addr = addr_id a) (userAddresses m)) = 1"
    using assms(1) mem by (simp add: distinct_id_once address_ids_ok_def)
  finally show ?thesis .
qed


text \<open>
  Claim C5.  For every address book (identifiers non-empty and pairwise distinct, an edit
  being the edit of an address of the book), after the profile page saves an address
  whose default flag is set, exactly one address of the saved list is the default: all
  earlier defaults are cleared before the address is appended or replaces the entry of
  its identifier.  The same holds for the list the checkout saves, whether a new address
  was entered or an existing one was selected.
\<close>

theorem one_default_after_upsert:
  assumes "profile s = Some prof" and "isDefaultAddress s"
    and "address_ids_ok (book prof)"
    and "\<forall>e. editingAddress s = Some e \<longrightarrow> e \<in> set (book prof)"
    and "address_ids_ok (userAddresses m)"
  shows "length (filter isDefault (updatedAddresses uuid prof s)) = 1
   \<and> (\<forall>p \<in> set (user_profiles (fst (handleAddOrUpdateAddress session None profileError uuid (d, s)))).
        up_id p = up_id prof \<longrightarrow> addresses p = Some (updatedAddresses uuid prof s))
   \<and> (currentShippingAddress uuidv4 m \<noteq> None \<longrightarrow>
        length (filter isDefault (updatedAddressesForProfile uuidv4 m)) = 1
        \<and> (\<forall>p \<in> set (user_profiles (fst (cart_checkout_payment (Some uid) uuidv4 rid None orderError
                  deleteError (PaymentSucceeded response) (d', page, m)))).
              up_id p = uid \<longrightarrow> addresses p = Some (updatedAddressesForProfile uuidv4 m)))"
proof -
  have one: "length (filter isDefault (updatedAddresses uuid prof s)) = 1"
  proof (cases "editingAddress s")
    case None
    with upsert_defaults [OF assms(2), of uuid prof] show ?thesis by simp
  next
    case (Some e)
    with assms(4) have mem: "e \<in> set (book prof)" by simp
    with assms(3) have "addr_id e \<noteq> []" by (force simp: address_ids_ok_def image_iff)
    then have "or_else (addr_id e) uuid = addr_id e" by (simp add: or_else_def)
    moreover from assms(3) mem
    have "length (filter (\<lambda>addr. addr_id addr = addr_id e) (book prof)) = 1"
      by (simp add: distinct_id_once address_ids_ok_def)
    ultimately show ?thesis using upsert_defaults [OF assms(2), of uuid prof] Some by simp
  qed
  have saved: "\<forall>p \<in> set (user_profiles (fst (handleAddOrUpdateAddress session None profileError uuid (d, s)))).
        up_id p = up_id prof \<longrightarrow> addresses p = Some (updatedAddresses uuid prof s)"
    unfolding saved_addresses [OF assms(1)] by auto
  have modal: "currentShippingAddress uuidv4 m \<noteq> None \<longrightarrow>
        length (filter isDefault (updatedAddressesForProfile uuidv4 m)) = 1
        \<and> (\<forall>p \<in> set (user_profiles (fst (cart_checkout_payment (Some uid) uuidv4 rid None orderError
                  deleteError (PaymentSucceeded response) (d', page, m)))).
              up_id p = uid \<longrightarrow> addresses p = Some (updatedAddressesForProfile uuidv4 m))"
  proof
    assume found: "currentShippingAddress uuidv4 m \<noteq> None"
    show "length (filter isDefault (updatedAddressesForProfile uuidv4 m)) = 1
        \<and> (\<forall>p \<in> set (user_profiles (fst (cart_checkout_payment (Some uid) uuidv4 rid None orderError
                  deleteError (PaymentSucceeded response) (d', page, m)))).
              up_id p = uid \<longrightarrow> addresses p = Some (updatedAddressesForProfile uuidv4 m))"
      unfolding checkout_saved_addresses [OF found]
      using checkout_defaults [OF assms(5) found] by auto
  qed
  show ?thesis by (rule conjI [OF one conjI [OF saved modal]])
qed

lemma sample_books:
  "book asha = [home_address, office_address]"
  "address_ids_ok [home_address, office_address]"
  "userAddresses checkout_modal = [home_address, office_address]"
  "profile editing_office = Some asha"
  "isDefaultAddress editing_office"
  "editingAddress editing_office = Some office_address"
  "currentShippingAddress uuids checkout_modal = Some office_address"
  by (simp_all add: book_def asha_def address_ids_ok_def home_address_def office_address_def
      checkout_modal_def editing_office_def currentShippingAddress_def)

theorem one_default_after_upsert_witness:
  "profile editing_office = Some asha \<and> isDefaultAddress editing_office
   \<and> address_ids_ok (book asha)
   \<and> editingAddress editing_office = Some office_address \<and> office_address \<in> set (book asha)
   \<and> address_ids_ok (userAddresses checkout_modal)
   \<and> currentShippingAddress uuids checkout_modal \<noteq> None
   \<and> length (filter isDefault (updatedAddresses ''uuid-9'' asha editing_office)) = 1
   \<and> map isDefault (updatedAddresses ''uuid-9'' asha editing_office) = [False, True]
   \<and> length (filter isDefault (updatedAddressesForProfile uuids checkout_modal)) = 1"
proof -
  have h: "profile editing_office = Some asha" "isDefaultAddress editing_office"
    "address_ids_ok (book asha)"
    "\<forall>e. editingAddress editing_office = Some e \<longrightarrow> e \<in> set (book asha)"
    "address_ids_ok (userAddresses checkout_modal)"
    "currentShippingAddress uuids checkout_modal \<noteq> None"
    by (simp_all add: sample_books)
  have flags: "map isDefault (updatedAddresses ''uuid-9'' asha editing_office) = [False, True]"
    by (simp add: updatedAddresses_def Let_def formAddress_def or_else_def asha_def editing_office_def
        home_address_def office_address_def)
  have edited: "editingAddress editing_office = Some office_address" "office_address \<in> set (book asha)"
    by (simp_all add: sample_books)
  from one_default_after_upsert [OF h(1-5), of "''uuid-9''" None None shop_db uuids "''user-1''"
      "''order-row-2''" None None paid shop_db searching_cart] h(1-3,5,6) edited flags
  show ?thesis by simp
qed

text \<open>
  The conditions are kept by the page itself: saving an address with a fresh, non-empty
  identifier leaves the identifiers of the book non-empty and pairwise distinct.
\<close>

lemma replaced_ids:
  "addr_id new = k \<Longrightarrow>
   map addr_id (map (\<lambda>addr. if addr_id addr = k then new else addr)
      (map (\<lambda>addr. addr\<lparr> isDefault := False \<rparr>) xs)) = map addr_id xs"
  by (induction xs) simp_all

lemma replaced_ids_kept:
  "addr_id new = k \<Longrightarrow>
   map addr_id (map (\<lambda>addr. if addr_id addr = k then new else addr) xs) = map addr_id xs"
  by (induction xs) simp_all

lemma cleared_ids: "map addr_id (map (\<lambda>addr. addr\<lparr> isDefault := False \<rparr>) xs) = map addr_id xs"
  by (induction xs) simp_all

lemma upsert_keeps_ids_ok:
  assumes "address_ids_ok (book prof)"
    and "uuid \<noteq> []" and "uuid \<notin> set (map addr_id (book prof))"
    and "\<forall>e. editingAddress s = Some e \<longrightarrow> e \<in> set (book prof)"
  shows "address_ids_ok (updatedAddresses uuid prof s)"
proof (cases "editingAddress s")
  case None
  then have "map addr_id (updatedAddresses uuid prof s) = map addr_id (book prof) @ [uuid]"
    by (simp add: updatedAddresses_def Let_def book_def formAddress_def or_else_def cleared_ids)
  with assms(1-3) show ?thesis by (simp add: address_ids_ok_def)
next
  case (Some e)
  with assms(4) have mem: "e \<in> set (book prof)" by simp
  with assms(1) have "addr_id e \<noteq> []" by (force simp: address_ids_ok_def image_iff)
  then have id: "addr_id (formAddress uuid s) = addr_id e"
    by (simp add: formAddress_def Some or_else_def)
  have "map addr_id (updatedAddresses uuid prof s) = map addr_id (book prof)"
  proof (cases "isDefaultAddress s")
    case True
    have "updatedAddresses uuid prof s =
        map (\<lambda>addr. if addr_id addr = addr_id e then formAddress uuid s else addr)
          (map (\<lambda>addr. addr\<lparr> isDefault := False \<rparr>) (book prof))"
      unfolding updatedAddresses_def Let_def book_def id using True Some
      by (simp only: option.case if_True)
    then show ?thesis using replaced_ids [OF id] by simp
  next
    case False
    have "updatedAddresses uuid prof s =
        map (\<lambda>addr. if addr_id addr = addr_id e then formAddress uuid s else addr) (book prof)"
      unfolding updatedAddresses_def Let_def book_def id using False Some
      by (simp only: option.case if_False)
    then show ?thesis using replaced_ids_kept [OF id] by simp
  qed
  with assms(1) show ?thesis by (simp add: address_ids_ok_def)
qed

text \<open>
  Outside these conditions the count of defaults after an edit is the number of entries
  that carry the edited identifier (lemma \<open>upsert_defaults\<close>): an edit whose identifier is
  no longer in the book saves a list without any default.
\<close>

lemma stale_edit_saves_no_default:
  "filter isDefault
     (updatedAddresses ''uuid-9'' (asha\<lparr> addresses := Some [home_address] \<rparr>) editing_office) = []"
  by (simp add: updatedAddresses_def Let_def formAddress_def or_else_def asha_def editing_office_def
      home_address_def office_address_def)

section \<open>Adding a product that is already in the cart\<close>

lemma filter_distinct_key:
  assumes "distinct (map f xs)" and "x \<in> set xs"
  shows "filter (\<lambda>y. f y = f x) xs = [x]"
  using assms
proof (induction xs)
  case Nil
  then show ?case by simp
next
  case (Cons a xs)
  show ?case
  proof (cases "a = x")
    case True
    with Cons.prems have "\<forall>y \<in> set xs. f y \<noteq> f x" by (auto simp: image_iff)
    then have "filter (\<lambda>y. f y = f x) xs = []" by (simp add: filter_empty_conv)
    with True show ?thesis by simp
  next
    case False
    with Cons.prems have mem: "x \<in> set xs" by simp
    with Cons.prems have "f a \<noteq> f x" by (auto simp: image_iff)
    with Cons mem show ?thesis by simp
  qed
qed

lemma existing_line_found:
  assumes "one_line_per_product rows"
    and "r \<in> set rows" and "cr_user_id r = uid" and "cr_product_id r = pid"
  shows "single (filter (\<lambda>r. cr_user_id r = uid \<and> cr_product_id r = pid) rows) = Some r"
proof -
  from filter_distinct_key [of "\<lambda>r. (cr_user_id r, cr_product_id r)" rows r] assms(1,2)
  have "filter (\<lambda>y. cr_user_id y = cr_user_id r \<and> cr_product_id y = cr_product_id r) rows = [r]"
    by (simp add: one_line_per_product_def)
  then show ?thesis unfolding assms(3,4) by (simp add: single_def)
qed

lemma single_None_distinct:
  assumes "distinct (map f xs)" and "single (filter (\<lambda>y. f y = k) xs) = None"
  shows "k \<notin> f ` set xs"
proof
  assume "k \<in> f ` set xs"
  then obtain x where "x \<in> set xs" and "f x = k" by auto
  with filter_distinct_key [OF assms(1), of x] assms(2) show False by (simp add: single_def)
qed

text \<open>Adding to the cart keeps the invariant, so it holds of every cart built by the handler.\<close>

lemma add_keeps_one_line_per_product:
  assumes "one_line_per_product (cart_items d)"
  shows "one_line_per_product
     (cart_items (fst (handleAddToCart session fetchError insertError newRowId product (d, s))))"
proof -
  have "(uid, p_id product) \<notin> (\<lambda>r. (cr_user_id r, cr_product_id r)) ` set (cart_items d)"
    if "single (filter (\<lambda>r. cr_user_id r = uid \<and> cr_product_id r = p_id product) (cart_items d)) = None"
    for uid
  proof -
    have "(\<lambda>r. cr_user_id r = uid \<and> cr_product_id r = p_id product) =
          (\<lambda>y. (cr_user_id y, cr_product_id y) = (uid, p_id product))" by auto
    with that single_None_distinct [of "\<lambda>r. (cr_user_id r, cr_product_id r)" "cart_items d" "(uid, p_id product)"]
      assms show ?thesis by (simp add: one_line_per_product_def)
  qed
  with assms show ?thesis
    by (auto simp: handleAddToCart_def one_line_per_product_def split: option.splits)
qed

text \<open>
  Claim C6.  For every user and product, when the cart (at most one line per user and
  product) already holds a line for the pair, adding the product again is answered with
  the "Already in cart" notice, no line is inserted and the existing line, with its
  quantity, is unchanged; the table of cart lines is unchanged even when the lookup
  itself fails.
\<close>

theorem add_existing_is_rejected:
  assumes "one_line_per_product (cart_items d)"
    and "r \<in> set (cart_items d)" and "cr_user_id r = uid" and "cr_product_id r = p_id product"
  shows "handleAddToCart (Some uid) None insertError newRowId product (d, s) =
           (d, s\<lparr> pd_toasts := pd_toasts s @
                    [notice ''Already in cart'' ''This product is already in your cart!''] \<rparr>)
   \<and> cart_items (fst (handleAddToCart (Some uid) fetchError insertError newRowId product (d, s))) =
       cart_items d
   \<and> r \<in> set (cart_items (fst (handleAddToCart (Some uid) fetchError insertError newRowId product (d, s))))"
proof -
  note found = existing_line_found [OF assms]
  have rejected: "handleAddToCart (Some uid) None insertError newRowId product (d, s) =
           (d, s\<lparr> pd_toasts := pd_toasts s @
                    [notice ''Already in cart'' ''This product is already in your cart!''] \<rparr>)"
    using found by (simp add: handleAddToCart_def)
  have same: "cart_items (fst (handleAddToCart (Some uid) fetchError insertError newRowId product (d, s))) =
       cart_items d"
    using found by (cases fetchError) (simp_all add: handleAddToCart_def)
  from rejected same assms(2) show ?thesis by simp
qed

theorem add_existing_is_rejected_witness:
  "one_line_per_product (cart_items shop_db)
   \<and> honey_row \<in> set (cart_items shop_db) \<and> cr_user_id honey_row = ''user-1''
   \<and> cr_product_id honey_row = p_id honey_product
   \<and> cart_items (fst (handleAddToCart (Some ''user-1'') None None ''line-9'' honey_product (shop_db, viewing))) =
       [honey_row, rice_row, other_row]
   \<and> map title (pd_toasts (snd (handleAddToCart (Some ''user-1'') None None ''line-9'' honey_product
         (shop_db, viewing)))) = [''Already in cart'']
   \<and> cr_quantity honey_row = 1 \<and> pd_quantity viewing = 3"
proof -
  have h: "one_line_per_product (cart_items shop_db)" "honey_row \<in> set (cart_items shop_db)"
    "cr_user_id honey_row = ''user-1''" "cr_product_id honey_row = p_id honey_product"
    by (simp_all add: one_line_per_product_def shop_db_def honey_row_def rice_row_def other_row_def
        honey_product_def)
  have more: "cart_items shop_db = [honey_row, rice_row, other_row]" "cr_quantity honey_row = 1"
    "pd_quantity viewing = 3" "pd_toasts viewing = []"
    by (simp_all add: shop_db_def honey_row_def viewing_def)
  from add_existing_is_rejected [OF h, of None "''line-9''" viewing None] h more
  show ?thesis by (simp add: notice_def)
qed

section \<open>The order persisted at checkout\<close>

text \<open>A successful checkout appends the order record built from the modal and nothing else.\<close>

lemma orderItemsData_fields:
  "map (\<lambda>i. (oi_product_id i, oi_quantity i, price_at_purchase i)) (orderItemsData uuidv4 k its) =
   map (\<lambda>item. (productId item, co_quantity item, co_price_at_add item)) its"
  by (induction its arbitrary: k) (simp_all add: orderItemsData_def)

lemma handleOrderSuccess_orders: "orders (fst (handleOrderSuccess session deleteError (d, s))) = orders d"
  by (simp add: handleOrderSuccess_def split: option.splits)

lemma handleOrderSuccess_profiles:
  "user_profiles (fst (handleOrderSuccess session deleteError (d, s))) = user_profiles d"
  by (simp add: handleOrderSuccess_def split: option.splits)

lemma save_profile_other:
  "orders (save_profile pe uid uuidv4 m d) = orders d"
  "cart_items (save_profile pe uid uuidv4 m d) = cart_items d"
  by (simp_all add: save_profile_def split: option.splits)

lemma checkout_success:
  assumes "currentShippingAddress uuidv4 m = Some shipTo"
  shows "cart_checkout_payment (Some uid) uuidv4 rid pe None de (PaymentSucceeded response) (d, s, m) =
     (case handleOrderSuccess (Some uid) de
             ((save_profile pe uid uuidv4 m d)
                \<lparr> orders := orders d @ [orderData uid uuidv4 rid response shipTo m] \<rparr>,
              s\<lparr> showCheckoutModal := False \<rparr>) of
        (d2, page2) \<Rightarrow> (d2, page2, payment_success_notice m))"
  using assms
  by (simp add: cart_checkout_payment_def RazorpayPayment_def handlePaymentSuccess_def Let_def
      save_profile_other)

lemma checkout_orders:
  "orders (fst (cart_checkout_payment session uuidv4 rid pe oe de outcome (d, s, m))) =
     (case outcome of
        PaymentSucceeded response \<Rightarrow>
          (case session of
             None \<Rightarrow> orders d
           | Some uid \<Rightarrow>
               (case currentShippingAddress uuidv4 m of
                  None \<Rightarrow> orders d
                | Some shipTo \<Rightarrow>
                    (case oe of
                       Some _ \<Rightarrow> orders d
                     | None \<Rightarrow> orders d @ [orderData uid uuidv4 rid response shipTo m])))
      | PaymentFailed err \<Rightarrow> orders d
      | SdkLoadFailed \<Rightarrow> orders d)"
  by (simp add: cart_checkout_payment_def RazorpayPayment_def handlePaymentSuccess_def Let_def
      save_profile_other handleOrderSuccess_def
      split: payment_outcome.splits option.splits prod.splits)

lemma orderData_items:
  "map (\<lambda>i. (oi_product_id i, oi_quantity i, price_at_purchase i))
       (order_items (orderData uid uuidv4 rid response shipTo m)) =
   map (\<lambda>item. (productId item, co_quantity item, co_price_at_add item)) (m_items m)"
  by (simp add: orderData_def orderItemsData_fields)

section \<open>The total stored with an order\<close>

lemma normalise_numeral:
  "normalise (numeral k) y ulp =
     (if 2 ^ 53 \<le> y then normalise (pred_numeral k) (y / 2) (ulp * 2)
      else if y < 2 ^ 52 \<and> 1 / 2 ^ 1074 < ulp then normalise (pred_numeral k) (y * 2) (ulp / 2)
      else (y, ulp))"
  by (simp add: numeral_eq_Suc)

lemma floor_numeral_quotient: "\<lfloor>(numeral a :: rat) / numeral b\<rfloor> = numeral a div numeral b"
  using floor_divide_of_int_eq [of "numeral a" "numeral b", where ?'a = rat] by simp

lemmas fl_eval = fl_def normalise_numeral round_half_even_def Let_def floor_numeral_quotient


text \<open>The rounding at work on a familiar case: 0.1 + 0.2 is not the double 0.3.\<close>

lemma tenth_plus_fifth:
  "dadd (parseFloat 1 1) (parseFloat 2 1) = 1351079888211149 / 4503599627370496"
  "parseFloat 3 1 = 5404319552844595 / 18014398509481984"
  by (simp_all add: parseFloat_def dadd_def fl_eval)




text \<open>
  The record persisted by \<open>handlePaymentSuccess\<close> is \<open>orderData\<close> (lemma
  \<open>checkout_orders\<close>): its items are the modal's lines (lemma \<open>orderData_items\<close>) and its
  total is the modal's total, the two fields \<open>orderData64\<close> carries.
\<close>

lemma orderData_total_amount:
  "total_amount (orderData uid uuidv4 rid response shipTo m) = totalAmount (m_items m)"
  by (simp add: orderData_def)




section \<open>A failed payment\<close>

text \<open>
  Claim C9.  For every checkout attempt in which the payment collaborator reports failure
  (a failed payment or a gateway script that does not load), the store (orders, cart
  lines, profiles) and the cart page are left as they were, so no order record is
  created and the cart is unchanged; the user is shown "Payment failed:" followed by the
  reason the collaborator gave ("Unknown error" when it gave none).
\<close>

theorem failed_payment_changes_nothing:
  "cart_checkout_payment session uuidv4 rid pe oe de (PaymentFailed err) (d, s, m) =
     (d, s, handlePaymentFailure err m)
   \<and> cart_checkout_payment session uuidv4 rid pe oe de SdkLoadFailed (d, s, m) =
     (d, s, handlePaymentFailure \<lparr> err_description = ''Failed to load Razorpay SDK'' \<rparr> m)
   \<and> m_toasts (handlePaymentFailure err m) =
       m_toasts m @
         [destructive ''Payment Failed'' (''Payment failed: '' @ or_else (err_description err) ''Unknown error'')]
   \<and> (err_description err \<noteq> [] \<longrightarrow>
        description (last (m_toasts (handlePaymentFailure err m))) = ''Payment failed: '' @ err_description err)
   \<and> m_items (handlePaymentFailure err m) = m_items m
   \<and> \<not> showRazorpay (handlePaymentFailure err m)"
  by (simp add: cart_checkout_payment_def RazorpayPayment_def handlePaymentFailure_def or_else_def
      destructive_def)

theorem failed_payment_changes_nothing_witness:
  "err_description \<lparr> err_description = ''Card declined'' \<rparr> \<noteq> []
   \<and> orders (fst (cart_checkout_payment (Some ''user-1'') uuids ''order-row-2'' None None None
          (PaymentFailed \<lparr> err_description = ''Card declined'' \<rparr>)
          (shop_db, searching_cart, checkout_modal))) = []
   \<and> cart_items (fst (cart_checkout_payment (Some ''user-1'') uuids ''order-row-2'' None None None
          (PaymentFailed \<lparr> err_description = ''Card declined'' \<rparr>)
          (shop_db, searching_cart, checkout_modal))) = [honey_row, rice_row, other_row]
   \<and> description (last (m_toasts (handlePaymentFailure \<lparr> err_description = ''Card declined'' \<rparr>
          checkout_modal))) = ''Payment failed: Card declined''"
proof -
  note t = failed_payment_changes_nothing [of "Some ''user-1''" uuids "''order-row-2''" None None None
      "\<lparr> err_description = ''Card declined'' \<rparr>" shop_db searching_cart checkout_modal]
  have reason: "err_description \<lparr> err_description = ''Card declined'' \<rparr> \<noteq> []" by simp
  from t have same: "cart_checkout_payment (Some ''user-1'') uuids ''order-row-2'' None None None
          (PaymentFailed \<lparr> err_description = ''Card declined'' \<rparr>)
          (shop_db, searching_cart, checkout_modal) =
        (shop_db, searching_cart, handlePaymentFailure \<lparr> err_description = ''Card declined'' \<rparr> checkout_modal)"
    by (rule conjunct1)
  from t reason have shown: "description (last (m_toasts (handlePaymentFailure
          \<lparr> err_description = ''Card declined'' \<rparr> checkout_modal))) =
        ''Payment failed: '' @ err_description \<lparr> err_description = ''Card declined'' \<rparr>"
    by (elim conjE) (erule (1) mp)
  have "orders shop_db = []" "cart_items shop_db = [honey_row, rice_row, other_row]"
    by (simp_all add: shop_db_def)
  with reason shown show ?thesis unfolding same by simp
qed

section \<open>Changing a quantity\<close>

lemma requantified_items:
  "map price_at_add (map (\<lambda>item. if item_id item = i then item\<lparr> quantity := q \<rparr> else item) xs) =
     map price_at_add xs"
  "map item_id (map (\<lambda>item. if item_id item = i then item\<lparr> quantity := q \<rparr> else item) xs) =
     map item_id xs"
  "map products (map (\<lambda>item. if item_id item = i then item\<lparr> quantity := q \<rparr> else item) xs) =
     map products xs"
  "map quantity (map (\<lambda>item. if item_id item = i then item\<lparr> quantity := q \<rparr> else item) xs) =
     map (\<lambda>item. if item_id item = i then q else quantity item) xs"
  by (induction xs) simp_all

lemma requantified_rows:
  "map cr_price_at_add
     (map (\<lambda>r. if cr_id r = i \<and> cr_user_id r = u then r\<lparr> cr_quantity := q \<rparr> else r) rows) =
     map cr_price_at_add rows"
  "map cr_quantity
     (map (\<lambda>r. if cr_id r = i \<and> cr_user_id r = u then r\<lparr> cr_quantity := q \<rparr> else r) rows) =
     map (\<lambda>r. if cr_id r = i \<and> cr_user_id r = u then q else cr_quantity r) rows"
  by (induction rows) simp_all

lemma quantity_change_accepted:
  "\<not> newQuantity < 1 \<Longrightarrow>
   handleQuantityChange (Some uid) None itemId newQuantity (d, s) =
     (d\<lparr> cart_items :=
          map (\<lambda>r. if cr_id r = itemId \<and> cr_user_id r = uid then r\<lparr> cr_quantity := newQuantity \<rparr> else r)
            (cart_items d) \<rparr>,
      s\<lparr> cartItems :=
          map (\<lambda>item. if item_id item = itemId then item\<lparr> quantity := newQuantity \<rparr> else item)
            (cartItems s) \<rparr>)"
  by (simp add: handleQuantityChange_def)

text \<open>
  Claim C8.  For every cart line and every new quantity: a new quantity below 1 is
  refused (the handlers return at once, the specification's InvalidQuantity) and leaves
  the store and the page, hence the line, unchanged; otherwise (signed in, the store
  accepting the update) the quantity of the line with the given identifier is replaced
  by the new quantity, on the page and in the store, every other line keeps its
  quantity and every line keeps its price-at-add.  The product page's quantity selector
  follows the same rule.
\<close>

theorem quantity_change:
  "(newQuantity < 1 \<longrightarrow>
      handleQuantityChange session updateError itemId newQuantity (d, s) = (d, s)
      \<and> updateQuantity newQuantity ps = ps)
   \<and> (\<not> newQuantity < 1 \<longrightarrow>
      map quantity (cartItems (snd (handleQuantityChange (Some uid) None itemId newQuantity (d, s)))) =
        map (\<lambda>item. if item_id item = itemId then newQuantity else quantity item) (cartItems s)
      \<and> map cr_quantity (cart_items (fst (handleQuantityChange (Some uid) None itemId newQuantity (d, s)))) =
        map (\<lambda>r. if cr_id r = itemId \<and> cr_user_id r = uid then newQuantity else cr_quantity r) (cart_items d)
      \<and> map price_at_add (cartItems (snd (handleQuantityChange (Some uid) None itemId newQuantity (d, s)))) =
        map price_at_add (cartItems s)
      \<and> map cr_price_at_add (cart_items (fst (handleQuantityChange (Some uid) None itemId newQuantity (d, s)))) =
        map cr_price_at_add (cart_items d)
      \<and> map item_id (cartItems (snd (handleQuantityChange (Some uid) None itemId newQuantity (d, s)))) =
        map item_id (cartItems s)
      \<and> pd_quantity (updateQuantity newQuantity ps) = newQuantity)"
proof -
  have rejected: "newQuantity < 1 \<longrightarrow>
      handleQuantityChange session updateError itemId newQuantity (d, s) = (d, s)
      \<and> updateQuantity newQuantity ps = ps"
    by (simp add: handleQuantityChange_def updateQuantity_def)
  have accepted: "\<not> newQuantity < 1 \<longrightarrow>
      map quantity (cartItems (snd (handleQuantityChange (Some uid) None itemId newQuantity (d, s)))) =
        map (\<lambda>item. if item_id item = itemId then newQuantity else quantity item) (cartItems s)
      \<and> map cr_quantity (cart_items (fst (handleQuantityChange (Some uid) None itemId newQuantity (d, s)))) =
        map (\<lambda>r. if cr_id r = itemId \<and> cr_user_id r = uid then newQuantity else cr_quantity r) (cart_items d)
      \<and> map price_at_add (cartItems (snd (handleQuantityChange (Some uid) None itemId newQuantity (d, s)))) =
        map price_at_add (cartItems s)
      \<and> map cr_price_at_add (cart_items (fst (handleQuantityChange (Some uid) None itemId newQuantity (d, s)))) =
        map cr_price_at_add (cart_items d)
      \<and> map item_id (cartItems (snd (handleQuantityChange (Some uid) None itemId newQuantity (d, s)))) =
        map item_id (cartItems s)
      \<and> pd_quantity (updateQuantity newQuantity ps) = newQuantity"
  proof
    assume ok: "\<not> newQuantity < 1"
    show "map quantity (cartItems (snd (handleQuantityChange (Some uid) None itemId newQuantity (d, s)))) =
        map (\<lambda>item. if item_id item = itemId then newQuantity else quantity item) (cartItems s)
      \<and> map cr_quantity (cart_items (fst (handleQuantityChange (Some uid) None itemId newQuantity (d, s)))) =
        map (\<lambda>r. if cr_id r = itemId \<and> cr_user_id r = uid then newQuantity else cr_quantity r) (cart_items d)
      \<and> map price_at_add (cartItems (snd (handleQuantityChange (Some uid) None itemId newQuantity (d, s)))) =
        map price_at_add (cartItems s)
      \<and> map cr_price_at_add (cart_items (fst (handleQuantityChange (Some uid) None itemId newQuantity (d, s)))) =
        map cr_price_at_add (cart_items d)
      \<and> map item_id (cartItems (snd (handleQuantityChange (Some uid) None itemId newQuantity (d, s)))) =
        map item_id (cartItems s)
      \<and> pd_quantity (updateQuantity newQuantity ps) = newQuantity"
      unfolding quantity_change_accepted [OF ok] using ok
      by (simp add: requantified_items requantified_rows updateQuantity_def del: map_map)
  qed
  show ?thesis by (rule conjI [OF rejected accepted])
qed

theorem quantity_change_witness:
  "\<not> (4::int) < 1 \<and> (0::int) < 1
   \<and> handleQuantityChange (Some ''user-1'') None ''line-1'' 0 (shop_db, searching_cart) = (shop_db, searching_cart)
   \<and> map quantity (cartItems (snd (handleQuantityChange (Some ''user-1'') None ''line-1'' 4
        (shop_db, searching_cart)))) = [2, 4]
   \<and> map price_at_add (cartItems (snd (handleQuantityChange (Some ''user-1'') None ''line-1'' 4
        (shop_db, searching_cart)))) = [500, 180]
   \<and> map cr_quantity (cart_items (fst (handleQuantityChange (Some ''user-1'') None ''line-1'' 4
        (shop_db, searching_cart)))) = [4, 2, 1]"
proof -
  note t0 = quantity_change [of 0 "Some ''user-1''" None "''line-1''" shop_db searching_cart viewing "''user-1''"]
  note t4 = quantity_change [of 4 "Some ''user-1''" None "''line-1''" shop_db searching_cart viewing "''user-1''"]
  have lines: "map quantity (cartItems searching_cart) = [2, 1]"
    "map price_at_add (cartItems searching_cart) = [500, 180]"
    "map item_id (cartItems searching_cart) = [''line-2'', ''line-1'']"
    "cartItems searching_cart = [rice_line, honey_line]"
    by (simp_all add: searching_cart_def rice_line_def honey_line_def)
  have rows: "cart_items shop_db = [honey_row, rice_row, other_row]"
    by (simp add: shop_db_def)
  from t0 have "handleQuantityChange (Some ''user-1'') None ''line-1'' 0 (shop_db, searching_cart) =
      (shop_db, searching_cart)" by simp
  moreover from t4 have "map quantity (cartItems (snd (handleQuantityChange (Some ''user-1'') None ''line-1'' 4
        (shop_db, searching_cart)))) = [2, 4]"
    unfolding lines by (simp add: rice_line_def honey_line_def)
  moreover from t4 have "map price_at_add (cartItems (snd (handleQuantityChange (Some ''user-1'') None ''line-1'' 4
        (shop_db, searching_cart)))) = [500, 180]"
    unfolding lines(2) by simp
  moreover from t4 have "map cr_quantity (cart_items (fst (handleQuantityChange (Some ''user-1'') None ''line-1'' 4
        (shop_db, searching_cart)))) = [4, 2, 1]"
    unfolding rows by (simp add: honey_row_def rice_row_def other_row_def)
  ultimately show ?thesis by simp
qed

section \<open>Checkout from a filtered cart\<close>

lemma checkout_item_fields:
  "map (\<lambda>item. (productId item, co_quantity item, co_price_at_add item)) (checkoutItems filtered) =
   map (\<lambda>item. (product_id item, quantity item, unitPrice item)) filtered"
  by (induction filtered) (simp_all add: checkoutItems_def)

lemma checkout_cart_rows:
  assumes "currentShippingAddress uuidv4 m = Some shipTo"
  shows "cart_items (fst (cart_checkout_payment (Some uid) uuidv4 rid pe None None (PaymentSucceeded response)
            (d, s, m))) = filter (\<lambda>r. cr_user_id r \<noteq> uid) (cart_items d)"
    and "cartItems (fst (snd (cart_checkout_payment (Some uid) uuidv4 rid pe None None
            (PaymentSucceeded response) (d, s, m)))) = []"
  unfolding checkout_success [OF assms]
  by (simp_all add: handleOrderSuccess_def save_profile_other)

text \<open>
  Claim C10.  When an order is placed from the cart page while a search term is active
  (the modal holds the lines the page handed it, payment and both store writes succeed),
  the persisted order contains exactly the cart lines whose product name matches the
  search term, yet the cart clear that follows deletes every cart line of the user and
  empties the page's cart: a line of the user whose product is not among the matching
  lines is deleted without being part of the order.  Such a cart exists: with the search
  term "honey", the rice line of the sample cart is deleted and the order holds the
  honey line only.
\<close>

theorem filtered_checkout_clears_whole_cart:
  assumes "m_items m = checkoutItems (filteredCartItems (searchTerm s) (cartItems s))"
    and "currentShippingAddress uuidv4 m = Some shipTo"
  shows "orders (fst (cart_checkout_payment (Some uid) uuidv4 rid pe None None (PaymentSucceeded response)
            (d, s, m))) = orders d @ [orderData uid uuidv4 rid response shipTo m]
   \<and> map (\<lambda>i. (oi_product_id i, oi_quantity i, price_at_purchase i))
         (order_items (orderData uid uuidv4 rid response shipTo m)) =
       map (\<lambda>item. (product_id item, quantity item, unitPrice item))
         (filter (matches_search (searchTerm s)) (cartItems s))
   \<and> cart_items (fst (cart_checkout_payment (Some uid) uuidv4 rid pe None None (PaymentSucceeded response)
            (d, s, m))) = filter (\<lambda>r. cr_user_id r \<noteq> uid) (cart_items d)
   \<and> (\<forall>r \<in> set (cart_items d). cr_user_id r = uid \<longrightarrow>
         r \<notin> set (cart_items (fst (cart_checkout_payment (Some uid) uuidv4 rid pe None None
            (PaymentSucceeded response) (d, s, m)))))
   \<and> cartItems (fst (snd (cart_checkout_payment (Some uid) uuidv4 rid pe None None
            (PaymentSucceeded response) (d, s, m)))) = []
   \<and> (\<forall>r \<in> set (cart_items d).
         cr_user_id r = uid \<and>
         cr_product_id r \<notin> set (map product_id (filter (matches_search (searchTerm s)) (cartItems s))) \<longrightarrow>
         r \<notin> set (cart_items (fst (cart_checkout_payment (Some uid) uuidv4 rid pe None None
            (PaymentSucceeded response) (d, s, m)))) \<and>
         cr_product_id r \<notin>
           set (map oi_product_id (order_items (orderData uid uuidv4 rid response shipTo m))))"
proof -
  have placed: "orders (fst (cart_checkout_payment (Some uid) uuidv4 rid pe None None (PaymentSucceeded response)
            (d, s, m))) = orders d @ [orderData uid uuidv4 rid response shipTo m]"
    unfolding checkout_orders using assms(2) by simp
  have only_matching: "map (\<lambda>i. (oi_product_id i, oi_quantity i, price_at_purchase i))
         (order_items (orderData uid uuidv4 rid response shipTo m)) =
       map (\<lambda>item. (product_id item, quantity item, unitPrice item))
         (filter (matches_search (searchTerm s)) (cartItems s))"
    unfolding orderData_items assms(1) checkout_item_fields filteredCartItems_def ..
  note cleared = checkout_cart_rows [OF assms(2), of uid rid pe response d s]
  have gone: "\<forall>r \<in> set (cart_items d). cr_user_id r = uid \<longrightarrow>
         r \<notin> set (cart_items (fst (cart_checkout_payment (Some uid) uuidv4 rid pe None None
            (PaymentSucceeded response) (d, s, m))))"
    unfolding cleared(1) by simp
  from arg_cong [OF only_matching, of "map fst"]
  have ids: "map oi_product_id (order_items (orderData uid uuidv4 rid response shipTo m)) =
      map product_id (filter (matches_search (searchTerm s)) (cartItems s))"
    by (simp add: comp_def)
  have lost: "\<forall>r \<in> set (cart_items d).
         cr_user_id r = uid \<and>
         cr_product_id r \<notin> set (map product_id (filter (matches_search (searchTerm s)) (cartItems s))) \<longrightarrow>
         r \<notin> set (cart_items (fst (cart_checkout_payment (Some uid) uuidv4 rid pe None None
            (PaymentSucceeded response) (d, s, m)))) \<and>
         cr_product_id r \<notin>
           set (map oi_product_id (order_items (orderData uid uuidv4 rid response shipTo m)))"
    unfolding cleared(1) ids by simp
  show ?thesis
    by (rule conjI [OF placed conjI [OF only_matching conjI [OF cleared(1) conjI [OF gone
            conjI [OF cleared(2) lost]]]]])
qed

lemma sample_page:
  "cartItems (fetchCartItems (Some ''user-1'') None shop_db searching_cart) = [rice_line, honey_line]"
  "cartItems searching_cart = [rice_line, honey_line]"
  "searchTerm searching_cart = ''honey''"
  "cart_items shop_db = [honey_row, rice_row, other_row]"
  "orders shop_db = []"
  by (simp_all add: fetchCartItems_def shop_db_def searching_cart_def honey_row_def rice_row_def
      other_row_def join_product_def rice_line_def honey_line_def)

lemma sample_matches:
  "matches_search ''honey'' honey_line" "\<not> matches_search ''honey'' rice_line"
  by (simp_all add: matches_search_def honey_line_def honey_def rice_line_def rice_def lower_samples)

theorem filtered_checkout_clears_whole_cart_witness:
  "m_items checkout_modal =
     checkoutItems (filteredCartItems (searchTerm searching_cart) (cartItems searching_cart))
   \<and> currentShippingAddress uuids checkout_modal = Some office_address
   \<and> cartItems (fetchCartItems (Some ''user-1'') None shop_db searching_cart) = cartItems searching_cart
   \<and> rice_line \<in> set (cartItems searching_cart)
   \<and> \<not> matches_search (searchTerm searching_cart) rice_line
   \<and> rice_row \<in> set (cart_items shop_db) \<and> cr_id rice_row = item_id rice_line
   \<and> map oi_product_id
        (concat (map order_items
           (orders (fst (cart_checkout_payment (Some ''user-1'') uuids ''order-row-2'' None None None
              (PaymentSucceeded paid) (shop_db, searching_cart, checkout_modal)))))) = [''prod-honey'']
   \<and> cart_items (fst (cart_checkout_payment (Some ''user-1'') uuids ''order-row-2'' None None None
          (PaymentSucceeded paid) (shop_db, searching_cart, checkout_modal))) = [other_row]"
proof -
  have opened: "m_items checkout_modal =
     checkoutItems (filteredCartItems (searchTerm searching_cart) (cartItems searching_cart))"
    unfolding sample_page by (simp add: checkout_modal_def)
  have ship: "currentShippingAddress uuids checkout_modal = Some office_address"
    by (rule sample_books)
  note t = filtered_checkout_clears_whole_cart [OF opened ship, of "''user-1''" "''order-row-2''" None paid shop_db]
  from t have placed: "orders (fst (cart_checkout_payment (Some ''user-1'') uuids ''order-row-2'' None None None
          (PaymentSucceeded paid) (shop_db, searching_cart, checkout_modal))) =
        orders shop_db @ [orderData ''user-1'' uuids ''order-row-2'' paid office_address checkout_modal]"
    by (rule conjunct1)
  from t have "map (\<lambda>i. (oi_product_id i, oi_quantity i, price_at_purchase i))
         (order_items (orderData ''user-1'' uuids ''order-row-2'' paid office_address checkout_modal)) =
       map (\<lambda>item. (product_id item, quantity item, unitPrice item))
         (filter (matches_search (searchTerm searching_cart)) (cartItems searching_cart))"
    by (elim conjE)
  then have "map (\<lambda>i. (oi_product_id i, oi_quantity i, price_at_purchase i))
         (order_items (orderData ''user-1'' uuids ''order-row-2'' paid office_address checkout_modal)) =
       [(product_id honey_line, quantity honey_line, unitPrice honey_line)]"
    unfolding sample_page by (simp add: sample_matches)
  then have "map fst (map (\<lambda>i. (oi_product_id i, oi_quantity i, price_at_purchase i))
         (order_items (orderData ''user-1'' uuids ''order-row-2'' paid office_address checkout_modal))) =
       [product_id honey_line]"
    by simp
  then have ids: "map oi_product_id
         (order_items (orderData ''user-1'' uuids ''order-row-2'' paid office_address checkout_modal)) =
       [''prod-honey'']"
    by (simp add: comp_def honey_line_def)
  from t have "cart_items (fst (cart_checkout_payment (Some ''user-1'') uuids ''order-row-2'' None None None
          (PaymentSucceeded paid) (shop_db, searching_cart, checkout_modal))) =
        filter (\<lambda>r. cr_user_id r \<noteq> ''user-1'') (cart_items shop_db)"
    by (elim conjE)
  then have rows: "cart_items (fst (cart_checkout_payment (Some ''user-1'') uuids ''order-row-2'' None None None
          (PaymentSucceeded paid) (shop_db, searching_cart, checkout_modal))) = [other_row]"
    unfolding sample_page by (simp add: honey_row_def rice_row_def other_row_def)
  have line: "rice_line \<in> set (cartItems searching_cart)"
    "\<not> matches_search (searchTerm searching_cart) rice_line"
    "rice_row \<in> set (cart_items shop_db)"
    unfolding sample_page by (simp_all add: sample_matches)
  have same_line: "cr_id rice_row = item_id rice_line"
    by (simp add: rice_row_def rice_line_def)
  have fetched: "cartItems (fetchCartItems (Some ''user-1'') None shop_db searching_cart) = cartItems searching_cart"
    unfolding sample_page ..
  show ?thesis
    unfolding placed rows using opened ship fetched line same_line ids by (simp add: sample_page)
qed

end
